theory Spec2Isabelle
  imports Complex_Main "HOL-Library.Log_Nat"
begin

section \<open>Data model\<close>

text \<open>
  The assessment workflow of the training backend: the tables of the relational schema
  (\<^verbatim>\<open>prisma/migrations/*/migration.sql\<close>) as lists of records, and the route handlers
  of the student and admin assessment modules as functions on the database state.

  Conventions of the embedding:
  \<^item> a table is the list of its rows in storage order; \<^verbatim>\<open>findFirst\<close> without
    \<^verbatim>\<open>orderBy\<close> is \<^const>\<open>find\<close>, \<^verbatim>\<open>count\<close> is the length of a filter;
  \<^item> INTEGER columns and the JavaScript numbers holding them are \<^typ>\<open>int\<close>; the range
    limit of a 32-bit column, beyond which the store refuses a write, is not modelled,
    and the statements on what \<open>Submit\<close> stores take the sum of marks within the range;
    timestamps are milliseconds as \<^typ>\<open>int\<close>;
  \<^item> a nullable column is an \<^typ>\<open>'a option\<close>;
  \<^item> every handler returns the HTTP outcome together with the database after the call, so
    that what an early return leaves behind is part of the model.
\<close>

datatype QuestionType = MULTIPLE_CHOICE | TRUE_FALSE | SHORT_ANSWER | LONG_ANSWER | FILL_IN_BLANK

datatype SubmissionStatus = IN_PROGRESS | COMPLETED | ABANDONED | TIME_UP

text \<open>
  The value of the DOUBLE PRECISION column \<^verbatim>\<open>percentage\<close>. The handlers only ever store
  \<^verbatim>\<open>parseFloat(x.toFixed(2))\<close>: the double nearest to a decimal with two places, which
  \<open>Pct n\<close> identifies by its numerator \<open>n\<close> (the decimal is \<open>n / 100\<close>), or one of the
  three non-finite doubles that a division by zero produces.
\<close>

datatype percent = Pct int | PosInfinity | NegInfinity | NaN

record Course =
  crs_id :: int
  crs_title :: string

record Enrollment =
  enr_userId :: int
  enr_courseId :: int

record Assessment =
  asm_id :: int
  asm_title :: string
  asm_description :: "string option"
  asm_courseId :: int
  asm_timeLimit :: "int option"
  asm_totalMarks :: int
  asm_passingMarks :: int
  asm_attempts :: int
  asm_isActive :: bool
  asm_randomizeQuestions :: bool
  asm_startDate :: "int option"
  asm_endDate :: "int option"

record Question =
  qn_id :: int
  qn_assessmentId :: int
  qn_questionText :: string
  qn_questionType :: QuestionType
  qn_marks :: int
  qn_order :: int
  qn_isActive :: bool
  qn_explanation :: "string option"
  qn_imageUrl :: "string option"

record QuestionOption =
  opt_id :: int
  opt_questionId :: int
  opt_optionText :: string
  opt_isCorrect :: bool
  opt_order :: int

record AssessmentSubmission =
  sub_id :: int
  sub_assessmentId :: int
  sub_userId :: int
  sub_startTime :: int
  sub_endTime :: "int option"
  sub_status :: SubmissionStatus
  sub_totalMarks :: int
  sub_obtainedMarks :: int
  sub_percentage :: percent
  sub_isPassed :: bool
  sub_attemptNumber :: int
  sub_timeSpent :: "int option"
  sub_isCheckedByTeacher :: bool
  sub_checkedBy :: "int option"
  sub_checkedAt :: "int option"
  sub_createdAt :: int

record SubmissionAnswer =
  ans_id :: int
  ans_submissionId :: int
  ans_questionId :: int
  ans_selectedOptionId :: "int option"
  ans_textAnswer :: "string option"
  ans_isCorrect :: bool
  ans_marksObtained :: int
  ans_timeSpent :: "int option"

text \<open>
  The database: one list per table, and the next value of the two SERIAL sequences the
  handlers draw from.
\<close>

record db =
  courses :: "Course list"
  enrollments :: "Enrollment list"
  assessments :: "Assessment list"
  questions :: "Question list"
  questionOptions :: "QuestionOption list"
  assessmentSubmissions :: "AssessmentSubmission list"
  submissionAnswers :: "SubmissionAnswer list"
  nextSubmissionId :: int
  nextAnswerId :: int

text \<open>
  The outcomes other than success. Each is one \<^verbatim>\<open>res.status(...)\<close> of the handlers;
  \<open>InternalError\<close> is the \<^verbatim>\<open>catch\<close> branch (HTTP 500), reached when the store rejects
  a write or a joined row is missing.
\<close>

datatype error =
    AssessmentNotFound
  | NotEnrolled
  | NotStartedYet
  | HasEnded
  | AttemptsExceeded
  | InvalidConfiguration
  | SubmissionClosed
  | QuestionNotFound
  | SubmissionIdRequired
  | SubmissionNotFound
  | AnswerNotFound
  | MarksOutOfRange
  | NotCompleted
  | GradingIncomplete nat
  | PendingReview
  | InternalError

text \<open>
  A field of a JSON request body: missing (\<^verbatim>\<open>undefined\<close>), \<^verbatim>\<open>null\<close>, or a value.
  The ORM skips an \<^verbatim>\<open>undefined\<close> field in an update and stores NULL for it in a create.
\<close>

datatype 'a jsopt = Undefined | Null | Val 'a

fun for_create :: "'a jsopt \<Rightarrow> 'a option" where
  "for_create Undefined = None"
| "for_create Null = None"
| "for_create (Val v) = Some v"

fun for_update :: "'a jsopt \<Rightarrow> 'a option \<Rightarrow> 'a option" where
  "for_update Undefined old = old"
| "for_update Null old = None"
| "for_update (Val v) old = Some v"

section \<open>Attempt Manager: POST /student/assessments/:id/start\<close>

record FormattedOption =
  fo_id :: int
  fo_optionText :: string

record FormattedQuestion =
  fq_id :: int
  fq_questionText :: string
  fq_questionType :: QuestionType
  fq_marks :: int
  fq_imageUrl :: "string option"
  fq_options :: "FormattedOption list"

record StartResponse =
  sr_submissionId :: int
  sr_assessmentId :: int
  sr_title :: string
  sr_description :: "string option"
  sr_timeLimit :: "int option"
  sr_totalMarks :: int
  sr_startTime :: int
  sr_questions :: "FormattedQuestion list"

text \<open>\<^verbatim>\<open>include: { options: true }\<close>: the options of a question, in storage order.\<close>

definition optionsOf :: "db \<Rightarrow> int \<Rightarrow> QuestionOption list" where
  "optionsOf d qid = filter (\<lambda>opt. opt_questionId opt = qid) (questionOptions d)"

text \<open>
  \<^verbatim>\<open>questions: { where: { isActive: true }, orderBy: { order: 'asc' } }\<close>: the active
  questions of an assessment by ascending \<^verbatim>\<open>order\<close>.
\<close>

definition activeQuestions :: "db \<Rightarrow> int \<Rightarrow> Question list" where
  "activeQuestions d aid =
     sort_key qn_order (filter (\<lambda>q. qn_assessmentId q = aid \<and> qn_isActive q) (questions d))"

definition formatOption :: "QuestionOption \<Rightarrow> FormattedOption" where
  "formatOption opt = \<lparr> fo_id = opt_id opt, fo_optionText = opt_optionText opt \<rparr>"

text \<open>The payload of one question: options by ascending \<^verbatim>\<open>order\<close>, without \<^verbatim>\<open>isCorrect\<close>.\<close>

definition formatQuestion :: "db \<Rightarrow> Question \<Rightarrow> FormattedQuestion" where
  "formatQuestion d q =
     \<lparr> fq_id = qn_id q,
       fq_questionText = qn_questionText q,
       fq_questionType = qn_questionType q,
       fq_marks = qn_marks q,
       fq_imageUrl = qn_imageUrl q,
       fq_options = map formatOption (sort_key opt_order (optionsOf d (qn_id q))) \<rparr>"

definition isEnrolled :: "db \<Rightarrow> int \<Rightarrow> int \<Rightarrow> bool" where
  "isEnrolled d userId courseId =
     (find (\<lambda>e. enr_userId e = userId \<and> enr_courseId e = courseId) (enrollments d) \<noteq> None)"

text \<open>\<^verbatim>\<open>assessmentSubmission.count({ where: { assessmentId, userId } })\<close>: every status counts.\<close>

definition existingAttempts :: "db \<Rightarrow> int \<Rightarrow> int \<Rightarrow> int" where
  "existingAttempts d aid userId =
     int (length (filter (\<lambda>s. sub_assessmentId s = aid \<and> sub_userId s = userId)
                         (assessmentSubmissions d)))"

definition inProgressSubmission :: "db \<Rightarrow> int \<Rightarrow> int \<Rightarrow> AssessmentSubmission option" where
  "inProgressSubmission d aid userId =
     find (\<lambda>s. sub_assessmentId s = aid \<and> sub_userId s = userId \<and> sub_status s = IN_PROGRESS)
          (assessmentSubmissions d)"

text \<open>
  The row that \<^verbatim>\<open>assessmentSubmission.create\<close> inserts: the given fields, the column
  defaults of the schema for the others, the next id of the sequence.
\<close>

definition newSubmission :: "db \<Rightarrow> int \<Rightarrow> int \<Rightarrow> int \<Rightarrow> int \<Rightarrow> int \<Rightarrow> AssessmentSubmission" where
  "newSubmission d now aid userId totalMarks attempt =
     \<lparr> sub_id = nextSubmissionId d,
       sub_assessmentId = aid,
       sub_userId = userId,
       sub_startTime = now,
       sub_endTime = None,
       sub_status = IN_PROGRESS,
       sub_totalMarks = totalMarks,
       sub_obtainedMarks = 0,
       sub_percentage = Pct 0,
       sub_isPassed = False,
       sub_attemptNumber = attempt,
       sub_timeSpent = None,
       sub_isCheckedByTeacher = False,
       sub_checkedBy = None,
       sub_checkedAt = None,
       sub_createdAt = now \<rparr>"

text \<open>The insert itself: the row goes to the end of the table, the sequence advances.\<close>

definition createSubmission :: "db \<Rightarrow> AssessmentSubmission \<Rightarrow> db" where
  "createSubmission d s = d\<lparr> assessmentSubmissions := assessmentSubmissions d @ [s],
                             nextSubmissionId := nextSubmissionId d + 1 \<rparr>"

text \<open>
  \<^verbatim>\<open>assessmentSubmission.update({ where: { id }, data })\<close> and the same for an answer:
  the row with the primary key gets the new fields, \<open>f\<close> being the assignment of \<open>data\<close>.
\<close>

definition updateSubmission ::
  "db \<Rightarrow> int \<Rightarrow> (AssessmentSubmission \<Rightarrow> AssessmentSubmission) \<Rightarrow> db" where
  "updateSubmission d sid f =
     d\<lparr> assessmentSubmissions :=
          map (\<lambda>s. if sub_id s = sid then f s else s) (assessmentSubmissions d) \<rparr>"

definition updateAnswer :: "db \<Rightarrow> int \<Rightarrow> (SubmissionAnswer \<Rightarrow> SubmissionAnswer) \<Rightarrow> db" where
  "updateAnswer d answerId f =
     d\<lparr> submissionAnswers :=
          map (\<lambda>a. if ans_id a = answerId then f a else a) (submissionAnswers d) \<rparr>"

text \<open>
  The unique index on (assessmentId, userId, attemptNumber): an insert that repeats a
  triple is rejected by the store.
\<close>

definition attemptTaken :: "db \<Rightarrow> int \<Rightarrow> int \<Rightarrow> int \<Rightarrow> bool" where
  "attemptTaken d aid userId attempt =
     (find (\<lambda>s. sub_assessmentId s = aid \<and> sub_userId s = userId \<and> sub_attemptNumber s = attempt)
           (assessmentSubmissions d) \<noteq> None)"

definition startResponse ::
  "db \<Rightarrow> Assessment \<Rightarrow> AssessmentSubmission \<Rightarrow> Question list \<Rightarrow> StartResponse" where
  "startResponse d assessment submission qs =
     \<lparr> sr_submissionId = sub_id submission,
       sr_assessmentId = asm_id assessment,
       sr_title = asm_title assessment,
       sr_description = asm_description assessment,
       sr_timeLimit = asm_timeLimit assessment,
       sr_totalMarks = asm_totalMarks assessment,
       sr_startTime = sub_startTime submission,
       sr_questions = map (formatQuestion d) qs \<rparr>"

text \<open>
  The handler. \<open>shuffle\<close> stands for \<^verbatim>\<open>[...questions].sort(() => Math.random() - 0.5)\<close>,
  whose outcome the random source decides; \<open>now\<close> is \<^verbatim>\<open>new Date()\<close>. The checks come in
  the order of the source: assessment, enrollment, time window, attempt count, and only
  then the lookup of a submission in progress.
\<close>

definition StartAttempt ::
  "(Question list \<Rightarrow> Question list) \<Rightarrow> int \<Rightarrow> int \<Rightarrow> int \<Rightarrow> db \<Rightarrow> (error + StartResponse) \<times> db" where
  "StartAttempt shuffle now aid userId d =
     (case find (\<lambda>a. asm_id a = aid \<and> asm_isActive a) (assessments d) of
        None \<Rightarrow> (Inl AssessmentNotFound, d)
      | Some assessment \<Rightarrow>
          if \<not> isEnrolled d userId (asm_courseId assessment) then (Inl NotEnrolled, d)
          else if (case asm_startDate assessment of Some t \<Rightarrow> now < t | None \<Rightarrow> False)
            then (Inl NotStartedYet, d)
          else if (case asm_endDate assessment of Some t \<Rightarrow> now > t | None \<Rightarrow> False)
            then (Inl HasEnded, d)
          else if existingAttempts d aid userId \<ge> asm_attempts assessment
            then (Inl AttemptsExceeded, d)
          else
            (case inProgressSubmission d aid userId of
               Some submission \<Rightarrow>
                 (Inr (startResponse d assessment submission (activeQuestions d aid)), d)
             | None \<Rightarrow>
                 if asm_totalMarks assessment \<le> 0 then (Inl InvalidConfiguration, d)
                 else if attemptTaken d aid userId (existingAttempts d aid userId + 1)
                   then (Inl InternalError, d)
                 else
                   let submission = newSubmission d now aid userId (asm_totalMarks assessment)
                                      (existingAttempts d aid userId + 1);
                       d' = createSubmission d submission;
                       qs = (if asm_randomizeQuestions assessment
                             then shuffle (activeQuestions d aid) else activeQuestions d aid)
                   in (Inr (startResponse d' assessment submission qs), d')))"

section \<open>Answer Recorder: POST /student/save-answer\<close>

record SaveAnswerBody =
  sa_submissionId :: int
  sa_questionId :: int
  sa_selectedOptionId :: "int jsopt"
  sa_textAnswer :: "string jsopt"
  sa_timeSpent :: "int jsopt"

text \<open>
  \<^verbatim>\<open>question.options.find(opt => opt.id === selectedOptionId)\<close>: strict equality holds
  for a number only.
\<close>

fun selectedOption :: "QuestionOption list \<Rightarrow> int jsopt \<Rightarrow> QuestionOption option" where
  "selectedOption opts (Val oid) = find (\<lambda>opt. opt_id opt = oid) opts"
| "selectedOption opts Undefined = None"
| "selectedOption opts Null = None"

text \<open>The grading rule of the handler: \<open>(isCorrect, marksObtained)\<close>.\<close>

definition autoGrade :: "db \<Rightarrow> Question \<Rightarrow> int jsopt \<Rightarrow> bool \<times> int" where
  "autoGrade d question sel =
     (if qn_questionType question = MULTIPLE_CHOICE \<or> qn_questionType question = TRUE_FALSE
      then (case selectedOption (optionsOf d (qn_id question)) sel of
              Some opt \<Rightarrow> if opt_isCorrect opt then (True, qn_marks question) else (False, 0)
            | None \<Rightarrow> (False, 0))
      else (False, 0))"

text \<open>
  The foreign key \<^verbatim>\<open>submission_answers_selectedOptionId_fkey\<close>: a non-null
  \<^verbatim>\<open>selectedOptionId\<close> must be the id of a stored option (of any question).
\<close>

fun optionFkOk :: "db \<Rightarrow> int jsopt \<Rightarrow> bool" where
  "optionFkOk d (Val oid) = (find (\<lambda>opt. opt_id opt = oid) (questionOptions d) \<noteq> None)"
| "optionFkOk d Undefined = True"
| "optionFkOk d Null = True"

definition answerKey :: "int \<Rightarrow> int \<Rightarrow> SubmissionAnswer \<Rightarrow> bool" where
  "answerKey sid qid a \<longleftrightarrow> ans_submissionId a = sid \<and> ans_questionId a = qid"

text \<open>
  \<^verbatim>\<open>submissionAnswer.upsert\<close> on the unique key (submissionId, questionId): the row
  with the key is updated, or a row is inserted when there is none.
\<close>

definition upsertAnswer :: "db \<Rightarrow> SaveAnswerBody \<Rightarrow> bool \<Rightarrow> int \<Rightarrow> db" where
  "upsertAnswer d body isCorrect marksObtained =
     (if find (answerKey (sa_submissionId body) (sa_questionId body)) (submissionAnswers d) \<noteq> None
      then d\<lparr> submissionAnswers :=
               map (\<lambda>a. if answerKey (sa_submissionId body) (sa_questionId body) a
                         then a\<lparr> ans_selectedOptionId :=
                                   for_update (sa_selectedOptionId body) (ans_selectedOptionId a),
                                 ans_textAnswer := for_update (sa_textAnswer body) (ans_textAnswer a),
                                 ans_isCorrect := isCorrect,
                                 ans_marksObtained := marksObtained,
                                 ans_timeSpent := for_update (sa_timeSpent body) (ans_timeSpent a) \<rparr>
                         else a)
                   (submissionAnswers d) \<rparr>
      else d\<lparr> submissionAnswers := submissionAnswers d @
               [\<lparr> ans_id = nextAnswerId d,
                  ans_submissionId = sa_submissionId body,
                  ans_questionId = sa_questionId body,
                  ans_selectedOptionId = for_create (sa_selectedOptionId body),
                  ans_textAnswer = for_create (sa_textAnswer body),
                  ans_isCorrect = isCorrect,
                  ans_marksObtained = marksObtained,
                  ans_timeSpent = for_create (sa_timeSpent body) \<rparr>],
              nextAnswerId := nextAnswerId d + 1 \<rparr>)"

text \<open>
  The handler. The question is looked up by its id alone; the assessment it belongs to
  is not compared with the submission's.
\<close>

definition SaveAnswer :: "int \<Rightarrow> SaveAnswerBody \<Rightarrow> db \<Rightarrow> (error + unit) \<times> db" where
  "SaveAnswer userId body d =
     (case find (\<lambda>s. sub_id s = sa_submissionId body \<and> sub_userId s = userId
                      \<and> sub_status s = IN_PROGRESS) (assessmentSubmissions d) of
        None \<Rightarrow> (Inl SubmissionClosed, d)
      | Some submission \<Rightarrow>
          (case find (\<lambda>q. qn_id q = sa_questionId body) (questions d) of
             None \<Rightarrow> (Inl QuestionNotFound, d)
           | Some question \<Rightarrow>
               let (isCorrect, marksObtained) = autoGrade d question (sa_selectedOptionId body)
               in if \<not> optionFkOk d (sa_selectedOptionId body) then (Inl InternalError, d)
                  else (Inr (), upsertAnswer d body isCorrect marksObtained)))"

section \<open>Percentages in double precision\<close>

text \<open>
  \<^verbatim>\<open>parseFloat(((obtained / total) * 100).toFixed(2))\<close> is computed on IEEE 754 doubles.
  A finite double is a rational number, and each operation returns the double nearest to
  the exact result, ties to the even significand; \<open>fl\<close> is that rounding (53 significant
  bits; the exponent is not bounded, the quotients of 32-bit integers being far from the
  limits). \<^verbatim>\<open>toFixed(2)\<close> takes the integer \<open>n\<close> with \<open>n / 100\<close> nearest to the exact value
  of the double, the larger one of two, on the absolute value.
\<close>

definition pow2 :: "int \<Rightarrow> rat" where
  "pow2 k = (if 0 \<le> k then 2 ^ nat k else 1 / 2 ^ nat (- k))"

text \<open>For \<open>x > 0\<close>, the exponent \<open>e\<close> with \<open>2 ^ e \<le> x < 2 ^ (e + 1)\<close>.\<close>

definition floor_log2 :: "rat \<Rightarrow> int" where
  "floor_log2 x =
     (let (p, q) = quotient_of x; k = bitlen p - bitlen q
      in if pow2 k \<le> x then k else k - 1)"

definition round_half_even :: "rat \<Rightarrow> int" where
  "round_half_even x =
     (let f = \<lfloor>x\<rfloor>; r = x - of_int f
      in if r < 1 / 2 then f else if 1 / 2 < r then f + 1 else if even f then f else f + 1)"

definition fl :: "rat \<Rightarrow> rat" where
  "fl x =
     (if x = 0 then 0
      else let e = floor_log2 \<bar>x\<bar> - 52
           in sgn x * of_int (round_half_even (\<bar>x\<bar> / pow2 e)) * pow2 e)"

definition toFixed2 :: "rat \<Rightarrow> int" where
  "toFixed2 x = (if x < 0 then - \<lfloor>- x * 100 + 1 / 2\<rfloor> else \<lfloor>x * 100 + 1 / 2\<rfloor>)"

definition jsPercentage :: "rat \<Rightarrow> int \<Rightarrow> percent" where
  "jsPercentage obtained totalMarks =
     (if totalMarks = 0
      then (if 0 < obtained then PosInfinity else if obtained < 0 then NegInfinity else NaN)
      else Pct (toFixed2 (fl (fl (obtained / of_int totalMarks) * 100))))"

text \<open>The percentage of a sum of stored marks, which is an integer.\<close>

definition percentageOf :: "int \<Rightarrow> int \<Rightarrow> percent" where
  "percentageOf obtained totalMarks = jsPercentage (of_int obtained) totalMarks"

text \<open>
  The integer part of a number: what \<^verbatim>\<open>parseInt\<close> reads from the positional decimal form
  of a number, and what an INTEGER column keeps of a number with a fraction. (A number
  that JavaScript prints with an exponent, below \<^verbatim>\<open>1e-6\<close> or from \<^verbatim>\<open>1e21\<close> on, is
  read by \<^verbatim>\<open>parseInt\<close> up to the exponent; marks of that size are not modelled.)
\<close>

definition integerPart :: "rat \<Rightarrow> int" where
  "integerPart x = (if x < 0 then - \<lfloor>- x\<rfloor> else \<lfloor>x\<rfloor>)"

text \<open>
  Following the spec's words, for comparison with \<open>percentageOf\<close>:
  \<^verbatim>\<open>round(M / T * 100, 2 decimal places)\<close> on the exact quotient, a half rounding up; as
  hundredths, \<open>round (M / T * 100 * 100)\<close>.
\<close>

definition specPercentage :: "int \<Rightarrow> int \<Rightarrow> percent" where
  "specPercentage obtained totalMarks =
     Pct (round (of_int obtained / of_int totalMarks * 100 * 100 :: rat))"

section \<open>Submission Finalizer: POST /student/assessments/:id/submit\<close>

record SubmitResponse =
  sm_submissionId :: int
  sm_status :: string
  sm_submittedAt :: int
  sm_timeSpent :: int
  sm_obtainedMarks :: int
  sm_totalMarks :: int
  sm_percentage :: percent

definition answersOf :: "db \<Rightarrow> int \<Rightarrow> SubmissionAnswer list" where
  "answersOf d sid = filter (\<lambda>a. ans_submissionId a = sid) (submissionAnswers d)"

text \<open>
  The handler; \<open>submissionId\<close> is the body field (\<^verbatim>\<open>!submissionId\<close> holds for 0 as for a
  missing field), \<open>aid\<close> the path parameter. The total is the parent assessment's.
\<close>

definition Submit :: "int \<Rightarrow> int \<Rightarrow> int \<Rightarrow> int \<Rightarrow> db \<Rightarrow> (error + SubmitResponse) \<times> db" where
  "Submit now aid userId submissionId d =
     (if submissionId = 0 then (Inl SubmissionIdRequired, d)
      else
        (case find (\<lambda>s. sub_id s = submissionId \<and> sub_userId s = userId
                         \<and> sub_assessmentId s = aid \<and> sub_status s = IN_PROGRESS)
                   (assessmentSubmissions d) of
           None \<Rightarrow> (Inl SubmissionNotFound, d)
         | Some submission \<Rightarrow>
             (case find (\<lambda>a. asm_id a = sub_assessmentId submission) (assessments d) of
                None \<Rightarrow> (Inl InternalError, d)
              | Some assessment \<Rightarrow>
                  let totalMarks = asm_totalMarks assessment in
                  if totalMarks \<le> 0 then (Inl InvalidConfiguration, d)
                  else
                    let obtainedMarks = sum_list (map ans_marksObtained (answersOf d submissionId));
                        percentage = percentageOf obtainedMarks totalMarks;
                        isPassed = (obtainedMarks \<ge> asm_passingMarks assessment);
                        timeSpent = (now - sub_startTime submission) div 1000;
                        d' = updateSubmission d submissionId
                               (\<lambda>s. s\<lparr> sub_endTime := Some now,
                                       sub_status := COMPLETED,
                                       sub_obtainedMarks := obtainedMarks,
                                       sub_percentage := percentage,
                                       sub_isPassed := isPassed,
                                       sub_timeSpent := Some timeSpent,
                                       sub_isCheckedByTeacher := False \<rparr>)
                    in (Inr \<lparr> sm_submissionId = submissionId,
                              sm_status = ''PENDING_REVIEW'',
                              sm_submittedAt = now,
                              sm_timeSpent = timeSpent,
                              sm_obtainedMarks = obtainedMarks,
                              sm_totalMarks = totalMarks,
                              sm_percentage = percentage \<rparr>, d'))))"

section \<open>Grading Workbench: POST /admin/submissions/:id/grade\<close>

record GradeResponse =
  gr_marksAwarded :: rat
  gr_maxMarks :: int
  gr_newTotalScore :: rat
  gr_newPercentage :: percent
  gr_isPassed :: bool

text \<open>
  \<^verbatim>\<open>marksObtained < 0 || marksObtained > answer.question.marks\<close> on the body field as it
  arrives, with no test of its type: a number is compared as it is, a missing field is
  \<^verbatim>\<open>NaN\<close> in both comparisons, which are then false, and \<^verbatim>\<open>null\<close> counts as 0.
\<close>

fun marksOutOfRange :: "rat jsopt \<Rightarrow> int \<Rightarrow> bool" where
  "marksOutOfRange (Val x) marks = (x < 0 \<or> x > of_int marks)"
| "marksOutOfRange Undefined marks = False"
| "marksOutOfRange Null marks = (0 > marks)"

text \<open>
  \<^verbatim>\<open>allAnswers.reduce\<close>: the sum of the marks of the answers, the new marks standing for
  the stored ones of the graded answer; each addition is one of doubles.
\<close>

definition totalObtained :: "int \<Rightarrow> rat \<Rightarrow> SubmissionAnswer list \<Rightarrow> rat" where
  "totalObtained answerId x allAnswers =
     foldl (\<lambda>sum a. fl (sum + (if ans_id a = answerId then x else of_int (ans_marksObtained a))))
           0 allAnswers"

text \<open>
  The handler; \<open>answerId\<close> is the path parameter, \<open>marksObtained\<close> the body field. The
  answer is written first; the submission's totals are then recomputed over all answers
  of the submission against the assessment's total. There is no test of the submission's
  status or of \<^verbatim>\<open>isCheckedByTeacher\<close>.

  The body field is taken as it arrives: missing, \<^verbatim>\<open>null\<close> or a number, which need not be
  an integer (a JSON value of another type is not modelled). What the three lead to,
  past the range test:
  \<^item> a number: \<^verbatim>\<open>isCorrect\<close> is its strict equality with the question's marks; the answer's
    INTEGER column keeps its integer part; the submission gets \<^verbatim>\<open>parseInt\<close> of the sum;
  \<^item> a missing field: the update of the answer skips \<^verbatim>\<open>marksObtained\<close> and writes
    \<^verbatim>\<open>isCorrect = (undefined === marks)\<close>, which is false; the sum is \<^verbatim>\<open>NaN\<close>, the update of
    the submission is refused, and the call ends in the \<^verbatim>\<open>catch\<close> branch;
  \<^item> \<^verbatim>\<open>null\<close>: the update of the answer is refused (the column is NOT NULL).
\<close>

definition GradeAnswer :: "int \<Rightarrow> rat jsopt \<Rightarrow> db \<Rightarrow> (error + GradeResponse) \<times> db" where
  "GradeAnswer answerId marksObtained d =
     (case find (\<lambda>a. ans_id a = answerId) (submissionAnswers d) of
        None \<Rightarrow> (Inl AnswerNotFound, d)
      | Some answer \<Rightarrow>
          (case find (\<lambda>q. qn_id q = ans_questionId answer) (questions d) of
             None \<Rightarrow> (Inl InternalError, d)
           | Some question \<Rightarrow>
               if marksOutOfRange marksObtained (qn_marks question)
               then (Inl MarksOutOfRange, d)
               else
                 (case marksObtained of
                    Null \<Rightarrow> (Inl InternalError, d)
                  | Undefined \<Rightarrow>
                      (Inl InternalError, updateAnswer d answerId (\<lambda>a. a\<lparr> ans_isCorrect := False \<rparr>))
                  | Val x \<Rightarrow>
                      let d1 = updateAnswer d answerId
                                 (\<lambda>a. a\<lparr> ans_marksObtained := integerPart x,
                                         ans_isCorrect := (x = of_int (qn_marks question)) \<rparr>);
                          total = totalObtained answerId x (answersOf d1 (ans_submissionId answer))
                      in
                        (case find (\<lambda>s. sub_id s = ans_submissionId answer)
                                   (assessmentSubmissions d) of
                           None \<Rightarrow> (Inl InternalError, d1)
                         | Some submission \<Rightarrow>
                             (case find (\<lambda>a. asm_id a = sub_assessmentId submission)
                                        (assessments d) of
                                None \<Rightarrow> (Inl InternalError, d1)
                              | Some assessment \<Rightarrow>
                                  let percentage = jsPercentage total (asm_totalMarks assessment);
                                      isPassed = (total \<ge> of_int (asm_passingMarks assessment));
                                      d2 = updateSubmission d1 (ans_submissionId answer)
                                             (\<lambda>s. s\<lparr> sub_obtainedMarks := integerPart total,
                                                     sub_percentage := percentage,
                                                     sub_isPassed := isPassed \<rparr>)
                                  in (Inr \<lparr> gr_marksAwarded = x,
                                            gr_maxMarks = qn_marks question,
                                            gr_newTotalScore = total,
                                            gr_newPercentage = percentage,
                                            gr_isPassed = isPassed \<rparr>, d2))))))"

section \<open>Review Gate: POST /admin/submissions/:id/approve-review\<close>

record ApproveResponse =
  ar_submissionId :: int
  ar_approvedAt :: int
  ar_obtainedMarks :: int
  ar_totalMarks :: int
  ar_percentage :: percent
  ar_isPassed :: bool

definition questionOf :: "db \<Rightarrow> SubmissionAnswer \<Rightarrow> Question option" where
  "questionOf d a = find (\<lambda>q. qn_id q = ans_questionId a) (questions d)"

text \<open>
  The filter of the handler: a short or long answer with a text and no marks. The join
  \<^verbatim>\<open>answer.question\<close> is the foreign key's row.
\<close>

definition isUngraded :: "db \<Rightarrow> SubmissionAnswer \<Rightarrow> bool" where
  "isUngraded d a =
     (case questionOf d a of
        None \<Rightarrow> False
      | Some q \<Rightarrow> (qn_questionType q = SHORT_ANSWER \<or> qn_questionType q = LONG_ANSWER)
                   \<and> ans_textAnswer a \<noteq> None \<and> ans_marksObtained a = 0)"

text \<open>
  The handler; \<open>teacherId\<close> is the authenticated user. An answer whose question row is
  missing makes the filter callback throw. The response's student name (a join with the
  user table, for display) is left out.
\<close>

definition ApproveReview :: "int \<Rightarrow> int \<Rightarrow> int \<Rightarrow> db \<Rightarrow> (error + ApproveResponse) \<times> db" where
  "ApproveReview now teacherId submissionId d =
     (case find (\<lambda>s. sub_id s = submissionId) (assessmentSubmissions d) of
        None \<Rightarrow> (Inl SubmissionNotFound, d)
      | Some submission \<Rightarrow>
          if sub_status submission \<noteq> COMPLETED then (Inl NotCompleted, d)
          else if find (\<lambda>a. questionOf d a = None) (answersOf d submissionId) \<noteq> None
            then (Inl InternalError, d)
          else
            let ungradedAnswers = filter (isUngraded d) (answersOf d submissionId) in
            if length ungradedAnswers > 0 then (Inl (GradingIncomplete (length ungradedAnswers)), d)
            else
              (Inr \<lparr> ar_submissionId = submissionId,
                     ar_approvedAt = now,
                     ar_obtainedMarks = sub_obtainedMarks submission,
                     ar_totalMarks = sub_totalMarks submission,
                     ar_percentage = sub_percentage submission,
                     ar_isPassed = sub_isPassed submission \<rparr>,
               updateSubmission d submissionId
                 (\<lambda>s. s\<lparr> sub_isCheckedByTeacher := True,
                         sub_checkedBy := Some teacherId,
                         sub_checkedAt := Some now \<rparr>)))"

section \<open>Student result queries\<close>

subsection \<open>GET /student/my-results\<close>

text \<open>
  One entry of the listing. A field that the pending branch sets to \<^verbatim>\<open>null\<close> or leaves
  out is \<open>None\<close>.
\<close>

record ResultEntry =
  re_submissionId :: int
  re_assessmentId :: int
  re_assessmentTitle :: string
  re_courseName :: string
  re_attemptNumber :: int
  re_submittedAt :: "int option"
  re_status :: string
  re_message :: string
  re_obtainedMarks :: "int option"
  re_totalMarks :: "int option"
  re_percentage :: "percent option"
  re_isPassed :: "bool option"
  re_canReview :: bool
  re_timeSpent :: "int option"
  re_checkedAt :: "int option"

text \<open>\<^verbatim>\<open>orderBy: { endTime: 'desc' }\<close>; NULL sorts as the largest value.\<close>

fun notEarlier :: "int option \<Rightarrow> int option \<Rightarrow> bool" where
  "notEarlier None _ = True"
| "notEarlier (Some x) None = False"
| "notEarlier (Some x) (Some y) = (y \<le> x)"

fun insertByEndTime ::
  "AssessmentSubmission \<Rightarrow> AssessmentSubmission list \<Rightarrow> AssessmentSubmission list" where
  "insertByEndTime s [] = [s]"
| "insertByEndTime s (t # ts) =
     (if notEarlier (sub_endTime s) (sub_endTime t) then s # t # ts
      else t # insertByEndTime s ts)"

definition orderByEndTimeDesc :: "AssessmentSubmission list \<Rightarrow> AssessmentSubmission list" where
  "orderByEndTimeDesc ss = foldr insertByEndTime ss []"

definition assessmentOf :: "db \<Rightarrow> AssessmentSubmission \<Rightarrow> Assessment option" where
  "assessmentOf d s = find (\<lambda>a. asm_id a = sub_assessmentId s) (assessments d)"

definition courseOf :: "db \<Rightarrow> Assessment \<Rightarrow> Course option" where
  "courseOf d a = find (\<lambda>c. crs_id c = asm_courseId a) (courses d)"

text \<open>The callback of \<^verbatim>\<open>submissions.map\<close>; \<open>None\<close> when a joined row is missing.\<close>

definition resultEntry :: "db \<Rightarrow> AssessmentSubmission \<Rightarrow> ResultEntry option" where
  "resultEntry d sub =
     (case assessmentOf d sub of
        None \<Rightarrow> None
      | Some assessment \<Rightarrow>
          (case courseOf d assessment of
             None \<Rightarrow> None
           | Some course \<Rightarrow>
               if \<not> sub_isCheckedByTeacher sub
               then Some \<lparr> re_submissionId = sub_id sub,
                           re_assessmentId = sub_assessmentId sub,
                           re_assessmentTitle = asm_title assessment,
                           re_courseName = crs_title course,
                           re_attemptNumber = sub_attemptNumber sub,
                           re_submittedAt = sub_endTime sub,
                           re_status = ''PENDING_REVIEW'',
                           re_message =
                             ''Your assessment has been submitted and result is pending teacher review'',
                           re_obtainedMarks = None,
                           re_totalMarks = None,
                           re_percentage = None,
                           re_isPassed = None,
                           re_canReview = False,
                           re_timeSpent = None,
                           re_checkedAt = None \<rparr>
               else Some \<lparr> re_submissionId = sub_id sub,
                           re_assessmentId = sub_assessmentId sub,
                           re_assessmentTitle = asm_title assessment,
                           re_courseName = crs_title course,
                           re_attemptNumber = sub_attemptNumber sub,
                           re_submittedAt = sub_endTime sub,
                           re_status = ''GRADED'',
                           re_message =
                             ''Your assessment has been reviewed. You can now view your detailed results.'',
                           re_obtainedMarks = Some (sub_obtainedMarks sub),
                           re_totalMarks = Some (asm_totalMarks assessment),
                           re_percentage = Some (sub_percentage sub),
                           re_isPassed = Some (sub_isPassed sub),
                           re_canReview = True,
                           re_timeSpent = sub_timeSpent sub,
                           re_checkedAt = sub_checkedAt sub \<rparr>))"

definition completedOf :: "db \<Rightarrow> int \<Rightarrow> AssessmentSubmission list" where
  "completedOf d userId =
     orderByEndTimeDesc
       (filter (\<lambda>s. sub_userId s = userId \<and> sub_status s = COMPLETED) (assessmentSubmissions d))"

definition myResults :: "int \<Rightarrow> db \<Rightarrow> error + ResultEntry list" where
  "myResults userId d =
     (case those (map (resultEntry d) (completedOf d userId)) of
        None \<Rightarrow> Inl InternalError
      | Some results \<Rightarrow> Inr results)"

subsection \<open>GET /student/submissions/:id/review\<close>

record OptionReview =
  or_text :: string
  or_isCorrect :: bool
  or_wasSelected :: bool

record DetailedAnswer =
  da_questionText :: string
  da_questionType :: QuestionType
  da_marks :: int
  da_marksObtained :: int
  da_isCorrect :: bool
  da_yourAnswer :: "string option"
  da_correctAnswer :: string
  da_explanation :: "string option"
  da_allOptions :: "OptionReview list"

record ReviewResponse =
  rv_submissionId :: int
  rv_assessmentTitle :: string
  rv_courseName :: string
  rv_attemptNumber :: int
  rv_obtainedMarks :: int
  rv_totalMarks :: int
  rv_percentage :: percent
  rv_isPassed :: bool
  rv_timeSpent :: "int option"
  rv_submittedAt :: "int option"
  rv_answers :: "DetailedAnswer list"

text \<open>The callback of \<^verbatim>\<open>submission.answers.map\<close>, given the answer's question.\<close>

definition detailedAnswer :: "db \<Rightarrow> SubmissionAnswer \<times> Question \<Rightarrow> DetailedAnswer" where
  "detailedAnswer d aq =
     (let answer = fst aq; question = snd aq; opts = optionsOf d (qn_id question);
          selected = (case ans_selectedOptionId answer of
                        None \<Rightarrow> None
                      | Some oid \<Rightarrow> find (\<lambda>opt. opt_id opt = oid) (questionOptions d))
      in \<lparr> da_questionText = qn_questionText question,
           da_questionType = qn_questionType question,
           da_marks = qn_marks question,
           da_marksObtained = ans_marksObtained answer,
           da_isCorrect = ans_isCorrect answer,
           da_yourAnswer =
             (case selected of
                None \<Rightarrow> ans_textAnswer answer
              | Some opt \<Rightarrow> if opt_optionText opt \<noteq> [] then Some (opt_optionText opt)
                            else ans_textAnswer answer),
           da_correctAnswer =
             (case find opt_isCorrect opts of
                None \<Rightarrow> ''N/A''
              | Some opt \<Rightarrow> if opt_optionText opt \<noteq> [] then opt_optionText opt else ''N/A''),
           da_explanation = qn_explanation question,
           da_allOptions =
             map (\<lambda>opt. \<lparr> or_text = opt_optionText opt,
                           or_isCorrect = opt_isCorrect opt,
                           or_wasSelected = (ans_selectedOptionId answer = Some (opt_id opt)) \<rparr>)
                 opts \<rparr>)"

text \<open>The answers of a submission with their questions, by the question's \<^verbatim>\<open>order\<close>.\<close>

definition answersWithQuestions :: "db \<Rightarrow> int \<Rightarrow> (SubmissionAnswer \<times> Question) list option" where
  "answersWithQuestions d sid =
     map_option (sort_key (\<lambda>aq. qn_order (snd aq)))
       (those (map (\<lambda>a. map_option (Pair a) (questionOf d a)) (answersOf d sid)))"

definition studentReview :: "int \<Rightarrow> int \<Rightarrow> db \<Rightarrow> error + ReviewResponse" where
  "studentReview userId submissionId d =
     (case find (\<lambda>s. sub_id s = submissionId \<and> sub_userId s = userId \<and> sub_status s = COMPLETED)
                (assessmentSubmissions d) of
        None \<Rightarrow> Inl SubmissionNotFound
      | Some submission \<Rightarrow>
          if \<not> sub_isCheckedByTeacher submission then Inl PendingReview
          else
            (case (assessmentOf d submission, answersWithQuestions d submissionId) of
               (Some assessment, Some aqs) \<Rightarrow>
                 (case courseOf d assessment of
                    None \<Rightarrow> Inl InternalError
                  | Some course \<Rightarrow>
                      Inr \<lparr> rv_submissionId = sub_id submission,
                            rv_assessmentTitle = asm_title assessment,
                            rv_courseName = crs_title course,
                            rv_attemptNumber = sub_attemptNumber submission,
                            rv_obtainedMarks = sub_obtainedMarks submission,
                            rv_totalMarks = sub_totalMarks submission,
                            rv_percentage = sub_percentage submission,
                            rv_isPassed = sub_isPassed submission,
                            rv_timeSpent = sub_timeSpent submission,
                            rv_submittedAt = sub_endTime submission,
                            rv_answers = map (detailedAnswer d) aqs \<rparr>)
             | _ \<Rightarrow> Inl InternalError))"

subsection \<open>GET /student/my-assessments\<close>

text \<open>
  The listing of the assessments of the caller's courses, with the state of the caller's
  latest submission of each. \<open>latestScore\<close> is \<^verbatim>\<open>null\<close> when there is no submission.
\<close>

record LatestScore =
  ls_percentage :: percent
  ls_obtainedMarks :: int
  ls_isPassed :: bool
  ls_submittedAt :: "int option"
  ls_isCheckedByTeacher :: bool

record AssessmentEntry =
  ae_assessmentId :: int
  ae_title :: string
  ae_description :: "string option"
  ae_courseName :: string
  ae_courseId :: int
  ae_timeLimit :: "int option"
  ae_totalMarks :: int
  ae_passingMarks :: int
  ae_totalQuestions :: int
  ae_attempts :: int
  ae_attemptsUsed :: int
  ae_attemptsRemaining :: int
  ae_status :: string
  ae_isAvailable :: bool
  ae_startDate :: "int option"
  ae_endDate :: "int option"
  ae_latestScore :: "LatestScore option"
  ae_canStart :: bool
  ae_canResume :: bool
  ae_canRetake :: bool

text \<open>
  \<^verbatim>\<open>submissions: { where: { userId }, orderBy: { createdAt: 'desc' } }\<close>: the caller's
  submissions of an assessment, the latest created first (rows created at the same time
  in storage order).
\<close>

definition submissionsOf :: "db \<Rightarrow> int \<Rightarrow> int \<Rightarrow> AssessmentSubmission list" where
  "submissionsOf d aid userId =
     sort_key (\<lambda>s. - sub_createdAt s)
       (filter (\<lambda>s. sub_assessmentId s = aid \<and> sub_userId s = userId) (assessmentSubmissions d))"

text \<open>
  The status shown for the latest submission. A COMPLETED one shows PASSED or FAILED by
  its \<^verbatim>\<open>isPassed\<close>; \<^verbatim>\<open>isCheckedByTeacher\<close> is not consulted.
\<close>

fun listingStatus :: "AssessmentSubmission option \<Rightarrow> string" where
  "listingStatus None = ''NOT_STARTED''"
| "listingStatus (Some latest) =
     (if sub_status latest = IN_PROGRESS then ''IN_PROGRESS''
      else if sub_status latest = COMPLETED
           then (if sub_isPassed latest then ''PASSED'' else ''FAILED'')
           else ''NOT_STARTED'')"

definition latestScore :: "AssessmentSubmission \<Rightarrow> LatestScore" where
  "latestScore latest =
     \<lparr> ls_percentage = sub_percentage latest,
       ls_obtainedMarks = sub_obtainedMarks latest,
       ls_isPassed = sub_isPassed latest,
       ls_submittedAt = sub_endTime latest,
       ls_isCheckedByTeacher = sub_isCheckedByTeacher latest \<rparr>"

text \<open>The callback of \<^verbatim>\<open>enrollment.course.assessments.map\<close>.\<close>

definition assessmentEntry :: "int \<Rightarrow> int \<Rightarrow> db \<Rightarrow> Course \<Rightarrow> Assessment \<Rightarrow> AssessmentEntry" where
  "assessmentEntry now userId d course assessment =
     (let submissions = submissionsOf d (asm_id assessment) userId;
          latestSubmission = (case submissions of [] \<Rightarrow> None | s # _ \<Rightarrow> Some s);
          attemptsUsed = int (length submissions);
          attemptsRemaining = asm_attempts assessment - attemptsUsed;
          status = listingStatus latestSubmission;
          isAvailable = ((case asm_startDate assessment of None \<Rightarrow> True | Some t \<Rightarrow> now \<ge> t)
                         \<and> (case asm_endDate assessment of None \<Rightarrow> True | Some t \<Rightarrow> now \<le> t))
      in \<lparr> ae_assessmentId = asm_id assessment,
           ae_title = asm_title assessment,
           ae_description = asm_description assessment,
           ae_courseName = crs_title course,
           ae_courseId = crs_id course,
           ae_timeLimit = asm_timeLimit assessment,
           ae_totalMarks = asm_totalMarks assessment,
           ae_passingMarks = asm_passingMarks assessment,
           ae_totalQuestions =
             int (length (filter (\<lambda>q. qn_assessmentId q = asm_id assessment) (questions d))),
           ae_attempts = asm_attempts assessment,
           ae_attemptsUsed = attemptsUsed,
           ae_attemptsRemaining = attemptsRemaining,
           ae_status = status,
           ae_isAvailable = isAvailable,
           ae_startDate = asm_startDate assessment,
           ae_endDate = asm_endDate assessment,
           ae_latestScore = map_option latestScore latestSubmission,
           ae_canStart = (isAvailable \<and> attemptsRemaining > 0 \<and> status \<noteq> ''IN_PROGRESS''),
           ae_canResume = (case latestSubmission of None \<Rightarrow> False
                           | Some s \<Rightarrow> sub_status s = IN_PROGRESS),
           ae_canRetake = (isAvailable \<and> attemptsRemaining > 0
                           \<and> (case latestSubmission of None \<Rightarrow> False
                               | Some s \<Rightarrow> sub_status s = COMPLETED)) \<rparr>)"

text \<open>\<^verbatim>\<open>statusOrder\<close> of the final sort, which is stable.\<close>

definition statusOrder :: "string \<Rightarrow> int" where
  "statusOrder status =
     (if status = ''IN_PROGRESS'' then 0 else if status = ''NOT_STARTED'' then 1
      else if status = ''FAILED'' then 2 else 3)"

text \<open>
  The handler: for each enrollment of the caller, the active assessments of its course;
  \<open>now\<close> is the time of the call.
\<close>

definition myAssessments :: "int \<Rightarrow> int \<Rightarrow> db \<Rightarrow> error + AssessmentEntry list" where
  "myAssessments now userId d =
     (case those (map (\<lambda>e. find (\<lambda>c. crs_id c = enr_courseId e) (courses d))
                      (filter (\<lambda>e. enr_userId e = userId) (enrollments d))) of
        None \<Rightarrow> Inl InternalError
      | Some cs \<Rightarrow>
          Inr (sort_key (\<lambda>e. statusOrder (ae_status e))
                 (concat (map (\<lambda>course.
                                 map (assessmentEntry now userId d course)
                                     (filter (\<lambda>a. asm_courseId a = crs_id course \<and> asm_isActive a)
                                             (assessments d)))
                              cs))))"

section \<open>The core operations as steps of the store\<close>

datatype operation =
    OpStartAttempt "Question list \<Rightarrow> Question list" int int int
  | OpSaveAnswer int SaveAnswerBody
  | OpSubmit int int int int
  | OpGradeAnswer int "rat jsopt"
  | OpApproveReview int int int

fun exec :: "operation \<Rightarrow> db \<Rightarrow> db" where
  "exec (OpStartAttempt shuffle now aid userId) d = snd (StartAttempt shuffle now aid userId d)"
| "exec (OpSaveAnswer userId body) d = snd (SaveAnswer userId body d)"
| "exec (OpSubmit now aid userId submissionId) d = snd (Submit now aid userId submissionId d)"
| "exec (OpGradeAnswer answerId marksObtained) d = snd (GradeAnswer answerId marksObtained d)"
| "exec (OpApproveReview now teacherId submissionId) d =
     snd (ApproveReview now teacherId submissionId d)"

text \<open>A sequence of operations, the first of the list first.\<close>

fun run :: "operation list \<Rightarrow> db \<Rightarrow> db" where
  "run [] d = d"
| "run (op # ops) d = run ops (exec op d)"

section \<open>Preconditions and an example store\<close>

text \<open>
  What \<open>StartAttempt\<close> checks before it looks at the attempts: the assessment is found
  and active, the caller is enrolled in its course, and \<open>now\<close> is within the window.
\<close>

definition startPreconditions :: "int \<Rightarrow> int \<Rightarrow> int \<Rightarrow> db \<Rightarrow> Assessment \<Rightarrow> bool" where
  "startPreconditions now aid userId d a \<longleftrightarrow>
     find (\<lambda>a. asm_id a = aid \<and> asm_isActive a) (assessments d) = Some a
     \<and> isEnrolled d userId (asm_courseId a)
     \<and> (case asm_startDate a of Some t \<Rightarrow> \<not> now < t | None \<Rightarrow> True)
     \<and> (case asm_endDate a of Some t \<Rightarrow> \<not> now > t | None \<Rightarrow> True)"

text \<open>
  The primary key of the submissions table: ids are distinct, and below the next value
  of the sequence, which starts at 1.
\<close>

definition submissionIdsOk :: "db \<Rightarrow> bool" where
  "submissionIdsOk d \<longleftrightarrow>
     distinct (map sub_id (assessmentSubmissions d))
     \<and> list_all (\<lambda>s. sub_id s < nextSubmissionId d) (assessmentSubmissions d)
     \<and> 0 < nextSubmissionId d"

text \<open>
  An example store: a quiz of 10 marks (pass mark 5, two attempts, random order) with a
  5-mark choice question whose option B is correct and a 5-mark long-answer question; a
  second assessment of 160 marks with a 23-mark true/false question; user 7 is enrolled
  in the course of both.
\<close>

definition quiz :: Assessment where
  "quiz = \<lparr> asm_id = 1, asm_title = ''Quiz'', asm_description = None, asm_courseId = 1,
            asm_timeLimit = None, asm_totalMarks = 10, asm_passingMarks = 5, asm_attempts = 2,
            asm_isActive = True, asm_randomizeQuestions = True,
            asm_startDate = None, asm_endDate = None \<rparr>"

definition exam :: Assessment where
  "exam = \<lparr> asm_id = 2, asm_title = ''Exam'', asm_description = None, asm_courseId = 1,
            asm_timeLimit = None, asm_totalMarks = 160, asm_passingMarks = 80, asm_attempts = 1,
            asm_isActive = True, asm_randomizeQuestions = False,
            asm_startDate = None, asm_endDate = None \<rparr>"

definition choiceQuestion :: Question where
  "choiceQuestion = \<lparr> qn_id = 1, qn_assessmentId = 1, qn_questionText = ''Pick one'',
                      qn_questionType = MULTIPLE_CHOICE, qn_marks = 5, qn_order = 1,
                      qn_isActive = True, qn_explanation = None, qn_imageUrl = None \<rparr>"

definition essayQuestion :: Question where
  "essayQuestion = \<lparr> qn_id = 2, qn_assessmentId = 1, qn_questionText = ''Explain'',
                     qn_questionType = LONG_ANSWER, qn_marks = 5, qn_order = 2,
                     qn_isActive = True, qn_explanation = None, qn_imageUrl = None \<rparr>"

definition examQuestion :: Question where
  "examQuestion = \<lparr> qn_id = 3, qn_assessmentId = 2, qn_questionText = ''True or false'',
                    qn_questionType = TRUE_FALSE, qn_marks = 23, qn_order = 1,
                    qn_isActive = True, qn_explanation = None, qn_imageUrl = None \<rparr>"

definition exampleOptions :: "QuestionOption list" where
  "exampleOptions =
     [\<lparr> opt_id = 1, opt_questionId = 1, opt_optionText = ''A'', opt_isCorrect = False, opt_order = 1 \<rparr>,
      \<lparr> opt_id = 2, opt_questionId = 1, opt_optionText = ''B'', opt_isCorrect = True, opt_order = 2 \<rparr>,
      \<lparr> opt_id = 3, opt_questionId = 3, opt_optionText = ''True'', opt_isCorrect = True, opt_order = 1 \<rparr>,
      \<lparr> opt_id = 4, opt_questionId = 3, opt_optionText = ''False'', opt_isCorrect = False, opt_order = 2 \<rparr>]"

definition exampleDb :: db where
  "exampleDb =
     \<lparr> courses = [\<lparr> crs_id = 1, crs_title = ''Induction'' \<rparr>],
       enrollments = [\<lparr> enr_userId = 7, enr_courseId = 1 \<rparr>],
       assessments = [quiz, exam],
       questions = [choiceQuestion, essayQuestion, examQuestion],
       questionOptions = exampleOptions,
       assessmentSubmissions = [],
       submissionAnswers = [],
       nextSubmissionId = 1,
       nextAnswerId = 1 \<rparr>"

text \<open>
  A run on the example store: user 7 starts the quiz, picks option B, writes an essay and
  submits; teacher 9 gives the essay 3 of 5 marks and approves the submission.
\<close>

definition startedDb :: db where
  "startedDb = exec (OpStartAttempt id 100 1 7) exampleDb"

definition choiceB :: SaveAnswerBody where
  "choiceB = \<lparr> sa_submissionId = 1, sa_questionId = 1, sa_selectedOptionId = Val 2,
               sa_textAnswer = Undefined, sa_timeSpent = Val 30 \<rparr>"

definition essay :: SaveAnswerBody where
  "essay = \<lparr> sa_submissionId = 1, sa_questionId = 2, sa_selectedOptionId = Undefined,
             sa_textAnswer = Val ''Because'', sa_timeSpent = Val 300 \<rparr>"

text \<open>
  More request bodies for the started submission: an answer to the question of the
  other assessment, the same with a choice that names no stored option, a choice that
  names an option of another question, and a choice that names no stored option.
\<close>

definition foreignAnswer :: SaveAnswerBody where
  "foreignAnswer = \<lparr> sa_submissionId = 1, sa_questionId = 3, sa_selectedOptionId = Val 3,
                     sa_textAnswer = Undefined, sa_timeSpent = Undefined \<rparr>"

definition foreignDangling :: SaveAnswerBody where
  "foreignDangling = \<lparr> sa_submissionId = 1, sa_questionId = 3, sa_selectedOptionId = Val 99,
                       sa_textAnswer = Undefined, sa_timeSpent = Undefined \<rparr>"

definition otherQuestionsOption :: SaveAnswerBody where
  "otherQuestionsOption = \<lparr> sa_submissionId = 1, sa_questionId = 1, sa_selectedOptionId = Val 3,
                            sa_textAnswer = Undefined, sa_timeSpent = Undefined \<rparr>"

definition danglingOption :: SaveAnswerBody where
  "danglingOption = \<lparr> sa_submissionId = 1, sa_questionId = 1, sa_selectedOptionId = Val 99,
                      sa_textAnswer = Undefined, sa_timeSpent = Undefined \<rparr>"

text \<open>
  A second run: user 7 starts the exam of 160 marks and answers its 23-mark question
  correctly.
\<close>

definition examAnswer :: SaveAnswerBody where
  "examAnswer = \<lparr> sa_submissionId = 1, sa_questionId = 3, sa_selectedOptionId = Val 3,
                  sa_textAnswer = Null, sa_timeSpent = Val 60 \<rparr>"

definition examAnsweredDb :: db where
  "examAnsweredDb = run [OpStartAttempt id 100 2 7, OpSaveAnswer 7 examAnswer] exampleDb"

definition answeredDb :: db where
  "answeredDb = run [OpSaveAnswer 7 choiceB, OpSaveAnswer 7 essay] startedDb"

text \<open>The answered quiz after its total has been corrected to 20 (the submission keeps 10).\<close>

definition retotalledDb :: db where
  "retotalledDb = answeredDb\<lparr> assessments := [quiz\<lparr> asm_totalMarks := 20 \<rparr>, exam] \<rparr>"

definition submittedDb :: db where
  "submittedDb = exec (OpSubmit 5100 1 7 1) answeredDb"

definition gradedDb :: db where
  "gradedDb = exec (OpGradeAnswer 2 (Val 3)) submittedDb"

definition approvedDb :: db where
  "approvedDb = exec (OpApproveReview 6000 9 1) gradedDb"

section \<open>What is withheld before approval\<close>

text \<open>
  The store with the withheld data blanked: the obtained marks, percentage and pass flag
  of every submission that is not checked by the teacher, and the marks and correctness
  of every answer whose submission id is that of no checked submission. Two stores with
  the same image differ in withheld data only.
\<close>

definition blankScores :: "AssessmentSubmission \<Rightarrow> AssessmentSubmission" where
  "blankScores s =
     (if sub_isCheckedByTeacher s then s
      else s\<lparr> sub_obtainedMarks := 0, sub_percentage := Pct 0, sub_isPassed := False \<rparr>)"

definition blankAnswer :: "db \<Rightarrow> SubmissionAnswer \<Rightarrow> SubmissionAnswer" where
  "blankAnswer d a =
     (if find (\<lambda>s. sub_id s = ans_submissionId a \<and> sub_isCheckedByTeacher s)
              (assessmentSubmissions d) \<noteq> None
      then a
      else a\<lparr> ans_isCorrect := False, ans_marksObtained := 0 \<rparr>)"

definition withheld :: "db \<Rightarrow> db" where
  "withheld d =
     d\<lparr> assessmentSubmissions := map blankScores (assessmentSubmissions d),
        submissionAnswers := map (blankAnswer d) (submissionAnswers d) \<rparr>"

text \<open>An entry of the results listing that shows no result.\<close>

definition pendingEntry :: "ResultEntry \<Rightarrow> bool" where
  "pendingEntry e \<longleftrightarrow>
     re_status e = ''PENDING_REVIEW'' \<and> re_obtainedMarks e = None \<and> re_totalMarks e = None
     \<and> re_percentage e = None \<and> re_isPassed e = None \<and> \<not> re_canReview e"

section \<open>Approved submissions\<close>

text \<open>
  The submission \<open>sid\<close> is completed and approved; and: the operation is the grading of
  an answer that belongs to submission \<open>sid\<close>.
\<close>

definition isApproved :: "db \<Rightarrow> int \<Rightarrow> bool" where
  "isApproved d sid =
     (case find (\<lambda>s. sub_id s = sid) (assessmentSubmissions d) of
        None \<Rightarrow> False
      | Some s \<Rightarrow> sub_status s = COMPLETED \<and> sub_isCheckedByTeacher s)"

fun gradesSubmission :: "operation \<Rightarrow> db \<Rightarrow> int \<Rightarrow> bool" where
  "gradesSubmission (OpGradeAnswer answerId marksObtained) d sid =
     (case find (\<lambda>a. ans_id a = answerId) (submissionAnswers d) of
        None \<Rightarrow> False
      | Some answer \<Rightarrow> ans_submissionId answer = sid)"
| "gradesSubmission _ d sid = False"

section \<open>Complete attempts\<close>

text \<open>
  One attempt carried through: the caller starts, and submits the submission that the
  start returned. \<open>completeAttempts n\<close> does so \<open>n\<close> times in a row and tells whether
  every call succeeded.
\<close>

definition completeAttempt ::
  "(Question list \<Rightarrow> Question list) \<Rightarrow> int \<Rightarrow> int \<Rightarrow> int \<Rightarrow> db \<Rightarrow> (error + SubmitResponse) \<times> db" where
  "completeAttempt shuffle now aid userId d =
     (case StartAttempt shuffle now aid userId d of
        (Inl e, d') \<Rightarrow> (Inl e, d')
      | (Inr r, d') \<Rightarrow> Submit now aid userId (sr_submissionId r) d')"

fun completeAttempts ::
  "nat \<Rightarrow> (Question list \<Rightarrow> Question list) \<Rightarrow> int \<Rightarrow> int \<Rightarrow> int \<Rightarrow> db \<Rightarrow> bool \<times> db" where
  "completeAttempts 0 shuffle now aid userId d = (True, d)"
| "completeAttempts (Suc n) shuffle now aid userId d =
     (case completeAttempt shuffle now aid userId d of
        (Inl e, d') \<Rightarrow> (False, d')
      | (Inr r, d') \<Rightarrow> completeAttempts n shuffle now aid userId d')"

text \<open>
  The state between two complete attempts of a pair: \<open>k\<close> submissions, none in progress,
  attempt numbers up to \<open>k\<close>.
\<close>

definition betweenAttempts :: "int \<Rightarrow> int \<Rightarrow> db \<Rightarrow> nat \<Rightarrow> bool" where
  "betweenAttempts aid userId d k \<longleftrightarrow>
     existingAttempts d aid userId = int k
     \<and> inProgressSubmission d aid userId = None
     \<and> list_all (\<lambda>s. sub_assessmentId s = aid \<and> sub_userId s = userId
                        \<longrightarrow> sub_attemptNumber s \<le> int k) (assessmentSubmissions d)
     \<and> 0 < nextSubmissionId d"

section \<open>Properties\<close>

subsection \<open>Evaluation and auxiliary facts\<close>

lemmas example_defs = exampleDb_def quiz_def exam_def choiceQuestion_def essayQuestion_def
  examQuestion_def exampleOptions_def

lemmas submit_defs = Submit_def updateSubmission_def answersOf_def

lemmas start_defs = StartAttempt_def isEnrolled_def existingAttempts_def inProgressSubmission_def
  attemptTaken_def newSubmission_def createSubmission_def startResponse_def activeQuestions_def
  formatQuestion_def formatOption_def optionsOf_def

lemma startPreconditions_pass:
  assumes "startPreconditions now aid userId d a"
  shows "StartAttempt shuffle now aid userId d =
     (if existingAttempts d aid userId \<ge> asm_attempts a then (Inl AttemptsExceeded, d)
      else case inProgressSubmission d aid userId of
             Some submission \<Rightarrow> (Inr (startResponse d a submission (activeQuestions d aid)), d)
           | None \<Rightarrow>
               if asm_totalMarks a \<le> 0 then (Inl InvalidConfiguration, d)
               else if attemptTaken d aid userId (existingAttempts d aid userId + 1)
                 then (Inl InternalError, d)
               else (Inr (startResponse
                            (createSubmission d (newSubmission d now aid userId (asm_totalMarks a)
                                      (existingAttempts d aid userId + 1)))
                            a
                            (newSubmission d now aid userId (asm_totalMarks a)
                                      (existingAttempts d aid userId + 1))
                            (if asm_randomizeQuestions a
                             then shuffle (activeQuestions d aid) else activeQuestions d aid)),
                     createSubmission d (newSubmission d now aid userId (asm_totalMarks a)
                                      (existingAttempts d aid userId + 1))))"
  using assms
  by (auto simp: startPreconditions_def StartAttempt_def Let_def split: option.splits)

lemma StartAttempt_Inr_preconditions:
  assumes "StartAttempt shuffle now aid userId d = (Inr r, d')"
  shows "\<exists>a. startPreconditions now aid userId d a"
  using assms
  by (auto simp: startPreconditions_def StartAttempt_def Let_def split: option.splits if_splits)

lemma startPreconditions_createSubmission [simp]:
  "startPreconditions now aid userId (createSubmission d s) a = startPreconditions now aid userId d a"
  by (simp add: startPreconditions_def createSubmission_def isEnrolled_def)

lemma activeQuestions_createSubmission [simp]:
  "activeQuestions (createSubmission d s) aid = activeQuestions d aid"
  by (simp add: activeQuestions_def createSubmission_def)

lemma formatQuestion_createSubmission [simp]:
  "formatQuestion (createSubmission d s) = formatQuestion d"
  by (rule ext) (simp add: formatQuestion_def optionsOf_def createSubmission_def)

lemma startResponse_createSubmission [simp]:
  "startResponse (createSubmission d s) a t qs = startResponse d a t qs"
  by (simp add: startResponse_def)

lemma find_append_None:
  "find P xs = None \<Longrightarrow> find P (xs @ ys) = find P ys"
  by (induction xs) (auto split: if_splits)

lemma find_append_Some:
  "find P xs = Some x \<Longrightarrow> find P (xs @ ys) = Some x"
  by (induction xs) (auto split: if_splits)

lemma inProgressSubmission_created:
  assumes "inProgressSubmission d aid userId = None"
  shows "inProgressSubmission (createSubmission d (newSubmission d now aid userId t n)) aid userId
           = Some (newSubmission d now aid userId t n)"
  using assms
  by (simp add: inProgressSubmission_def createSubmission_def find_append_None newSubmission_def)

lemma startPreconditions_unique:
  "startPreconditions now aid userId d a \<Longrightarrow> startPreconditions now' aid userId d a' \<Longrightarrow> a' = a"
  by (simp add: startPreconditions_def)

lemmas save_defs = SaveAnswer_def autoGrade_def upsertAnswer_def answerKey_def optionsOf_def

lemmas grade_defs = GradeAnswer_def updateAnswer_def updateSubmission_def answersOf_def
  totalObtained_def integerPart_def

lemmas approve_defs = ApproveReview_def isUngraded_def questionOf_def answersOf_def
  updateSubmission_def

lemma percentageOf_examples:
  "percentageOf 5 10 = Pct 5000"
  "percentageOf 8 10 = Pct 8000"
  "percentageOf 10 10 = Pct 10000"
  "percentageOf 23 160 = Pct 1437"
  "percentageOf 5 20 = Pct 2500"
  "specPercentage 23 160 = Pct 1438"
  "jsPercentage 8 10 = Pct 8000"
  "jsPercentage 10 10 = Pct 10000"
  "jsPercentage 5 10 = Pct 5000"
  by code_simp+

lemma fl_examples:
  "fl 0 = 0" "fl 3 = 3" "fl 5 = 5" "fl 8 = 8" "fl 10 = 10"
  by code_simp+

lemma grade_examples:
  "fl (15 / 2) = 15 / 2" "jsPercentage (15 / 2) 10 = Pct 7500"
  "\<lfloor>5 / 2 :: rat\<rfloor> = 2" "\<lfloor>15 / 2 :: rat\<rfloor> = 7"
  by code_simp+

lemma startedDb_eq:
  "startedDb = exampleDb
     \<lparr> assessmentSubmissions :=
         [\<lparr> sub_id = 1, sub_assessmentId = 1, sub_userId = 7, sub_startTime = 100,
            sub_endTime = None, sub_status = IN_PROGRESS, sub_totalMarks = 10,
            sub_obtainedMarks = 0, sub_percentage = Pct 0, sub_isPassed = False,
            sub_attemptNumber = 1, sub_timeSpent = None, sub_isCheckedByTeacher = False,
            sub_checkedBy = None, sub_checkedAt = None,
            sub_createdAt = 100 \<rparr>],
       nextSubmissionId := 2 \<rparr>"
  by (simp add: startedDb_def example_defs start_defs)

lemma answeredDb_eq:
  "answeredDb = startedDb
     \<lparr> submissionAnswers :=
         [\<lparr> ans_id = 1, ans_submissionId = 1, ans_questionId = 1, ans_selectedOptionId = Some 2,
            ans_textAnswer = None, ans_isCorrect = True, ans_marksObtained = 5,
            ans_timeSpent = Some 30 \<rparr>,
          \<lparr> ans_id = 2, ans_submissionId = 1, ans_questionId = 2, ans_selectedOptionId = None,
            ans_textAnswer = Some ''Because'', ans_isCorrect = False, ans_marksObtained = 0,
            ans_timeSpent = Some 300 \<rparr>],
       nextAnswerId := 3 \<rparr>"
  by (simp add: answeredDb_def choiceB_def essay_def startedDb_eq example_defs save_defs)

lemma submittedDb_eq:
  "submittedDb = answeredDb
     \<lparr> assessmentSubmissions :=
         [\<lparr> sub_id = 1, sub_assessmentId = 1, sub_userId = 7, sub_startTime = 100,
            sub_endTime = Some 5100, sub_status = COMPLETED, sub_totalMarks = 10,
            sub_obtainedMarks = 5, sub_percentage = Pct 5000, sub_isPassed = True,
            sub_attemptNumber = 1, sub_timeSpent = Some 5, sub_isCheckedByTeacher = False,
            sub_checkedBy = None, sub_checkedAt = None,
            sub_createdAt = 100 \<rparr>] \<rparr>"
  by (simp add: submittedDb_def answeredDb_eq startedDb_eq example_defs submit_defs Let_def
        percentageOf_examples)

lemma gradedDb_eq:
  "gradedDb = submittedDb
     \<lparr> submissionAnswers :=
         [\<lparr> ans_id = 1, ans_submissionId = 1, ans_questionId = 1, ans_selectedOptionId = Some 2,
            ans_textAnswer = None, ans_isCorrect = True, ans_marksObtained = 5,
            ans_timeSpent = Some 30 \<rparr>,
          \<lparr> ans_id = 2, ans_submissionId = 1, ans_questionId = 2, ans_selectedOptionId = None,
            ans_textAnswer = Some ''Because'', ans_isCorrect = False, ans_marksObtained = 3,
            ans_timeSpent = Some 300 \<rparr>],
       assessmentSubmissions :=
         [\<lparr> sub_id = 1, sub_assessmentId = 1, sub_userId = 7, sub_startTime = 100,
            sub_endTime = Some 5100, sub_status = COMPLETED, sub_totalMarks = 10,
            sub_obtainedMarks = 8, sub_percentage = Pct 8000, sub_isPassed = True,
            sub_attemptNumber = 1, sub_timeSpent = Some 5, sub_isCheckedByTeacher = False,
            sub_checkedBy = None, sub_checkedAt = None,
            sub_createdAt = 100 \<rparr>] \<rparr>"
  by (simp add: gradedDb_def submittedDb_eq answeredDb_eq startedDb_eq example_defs grade_defs
        Let_def percentageOf_examples fl_examples)

lemma approvedDb_eq:
  "approvedDb = gradedDb
     \<lparr> assessmentSubmissions :=
         [\<lparr> sub_id = 1, sub_assessmentId = 1, sub_userId = 7, sub_startTime = 100,
            sub_endTime = Some 5100, sub_status = COMPLETED, sub_totalMarks = 10,
            sub_obtainedMarks = 8, sub_percentage = Pct 8000, sub_isPassed = True,
            sub_attemptNumber = 1, sub_timeSpent = Some 5, sub_isCheckedByTeacher = True,
            sub_checkedBy = Some 9, sub_checkedAt = Some 6000,
            sub_createdAt = 100 \<rparr>] \<rparr>"
  by (simp add: approvedDb_def gradedDb_eq submittedDb_eq answeredDb_eq startedDb_eq example_defs
        approve_defs Let_def)

lemmas run_eqs = approvedDb_eq gradedDb_eq submittedDb_eq answeredDb_eq startedDb_eq

subsection \<open>The rounding error of the percentage\<close>

text \<open>
  Rounding to a double moves a non-negative number by at most the fraction \<open>2\<^sup>-\<^sup>5\<^sup>3\<close> of
  it. The two roundings of \<^verbatim>\<open>(M / T) * 100\<close> therefore stay closer to the exact value than
  any quotient by \<open>T\<close> is to the next half hundredth, unless it is one: the percentage is a
  hundredth nearest to \<open>M / T * 100\<close>, and only at an exact tie can the error decide
  which.
\<close>

lemma pow2_powi: "pow2 k = 2 powi k"
  by (simp add: pow2_def power_int_def power_inverse inverse_eq_divide power_one_over)

lemma pow2_pos: "0 < pow2 k"
  by (simp add: pow2_def)

lemma pow2_add: "pow2 (a + b) = pow2 a * pow2 b"
  by (simp add: pow2_powi power_int_add)

lemma pow2_diff: "pow2 (a - b) = pow2 a / pow2 b"
  by (simp add: pow2_powi power_int_diff)

lemma pow2_nat: "pow2 (int n) = 2 ^ n"
  by (simp add: pow2_def)

lemma floor_log2_le:
  assumes "0 < x"
  shows "pow2 (floor_log2 x) \<le> x"
proof -
  obtain p q where pq: "quotient_of x = (p, q)" by (cases "quotient_of x")
  then have q: "0 < q" and x: "x = of_int p / of_int q"
    using quotient_of_denom_pos quotient_of_div by auto
  with assms have p: "0 < p"
    by (simp add: zero_less_divide_iff)
  let ?k = "bitlen p - bitlen q"
  show ?thesis
  proof (cases "pow2 ?k \<le> x")
    case True
    then show ?thesis by (simp add: floor_log2_def pq)
  next
    case False
    have bp: "1 \<le> bitlen p" using p by (simp add: bitlen_alt_def)
    have bq: "0 \<le> bitlen q" by (rule bitlen_nonneg)
    from bitlen_bounds [OF p] have lo: "(2::rat) ^ nat (bitlen p - 1) \<le> of_int p"
      by (metis of_int_le_iff of_int_numeral of_int_power)
    from bitlen_bounds [OF q] have hi: "of_int q < (2::rat) ^ nat (bitlen q)"
      by (metis of_int_less_iff of_int_numeral of_int_power)
    have "pow2 (?k - 1) = pow2 (bitlen p - 1) / pow2 (bitlen q)"
      by (simp add: pow2_diff [symmetric] algebra_simps)
    also have "\<dots> = 2 ^ nat (bitlen p - 1) / 2 ^ nat (bitlen q)"
      using bp bq by (simp add: pow2_def)
    also have "\<dots> \<le> of_int p / of_int q"
      using lo hi q p by (intro frac_le) simp_all
    finally have "pow2 (?k - 1) \<le> x"
      by (simp only: x)
    then show ?thesis
      using False by (simp add: floor_log2_def pq)
  qed
qed

lemma round_half_even_error: "\<bar>of_int (round_half_even x) - x\<bar> \<le> 1 / 2"
proof -
  have "of_int \<lfloor>x\<rfloor> \<le> x" "x < of_int \<lfloor>x\<rfloor> + 1"
    by linarith+
  then show ?thesis
    by (auto simp: round_half_even_def Let_def abs_le_iff)
qed

lemma fl_error:
  assumes "0 \<le> x"
  shows "\<bar>fl x - x\<bar> \<le> x / 2 ^ 53" and "0 \<le> fl x"
proof -
  show "\<bar>fl x - x\<bar> \<le> x / 2 ^ 53"
  proof (cases "x = 0")
    case True
    then show ?thesis by (simp add: fl_def)
  next
    case False
    with assms have pos: "0 < x" by simp
    let ?e = "floor_log2 x - 52"
    let ?m = "round_half_even (x / pow2 ?e)"
    have flx: "fl x = of_int ?m * pow2 ?e"
      using pos by (simp add: fl_def Let_def)
    have "fl x - x = (of_int ?m - x / pow2 ?e) * pow2 ?e"
      using pow2_pos [of ?e] by (simp add: flx left_diff_distrib)
    then have "\<bar>fl x - x\<bar> = \<bar>of_int ?m - x / pow2 ?e\<bar> * \<bar>pow2 ?e\<bar>"
      by (simp only: abs_mult)
    also have "\<dots> = \<bar>of_int ?m - x / pow2 ?e\<bar> * pow2 ?e"
      using pow2_pos [of ?e] by simp
    also have "\<dots> \<le> 1 / 2 * pow2 ?e"
      using pow2_pos [of ?e] round_half_even_error [of "x / pow2 ?e"]
      by (intro mult_right_mono) simp_all
    also have "\<dots> = pow2 (floor_log2 x) / 2 ^ 53"
    proof -
      have "pow2 52 = 2 ^ 52" by (simp add: pow2_def)
      then show ?thesis by (simp add: pow2_diff)
    qed
    also have "\<dots> \<le> x / 2 ^ 53"
      using floor_log2_le [OF pos] by (simp add: divide_right_mono)
    finally show ?thesis .
  qed
  show "0 \<le> fl x"
  proof (cases "x = 0")
    case True
    then show ?thesis by (simp add: fl_def)
  next
    case False
    with assms have pos: "0 < x" by simp
    have "0 \<le> x / pow2 (floor_log2 x - 52)"
      using pos pow2_pos by (simp add: less_imp_le)
    then have "0 \<le> round_half_even (x / pow2 (floor_log2 x - 52))"
      by (auto simp: round_half_even_def Let_def)
    then show ?thesis
      using pos pow2_pos [of "floor_log2 x - 52"] by (simp add: fl_def Let_def)
  qed
qed


lemma double_product_error:
  assumes x: "0 \<le> x"
  shows "\<bar>fl (fl x * 100) * 100 - 10000 * x\<bar> \<le> 30000 * x / 2 ^ 53" and "0 \<le> fl (fl x * 100)"
proof -
  let ?x1 = "fl x"
  let ?x2 = "fl (?x1 * 100)"
  from fl_error [OF x] have e1: "\<bar>?x1 - x\<bar> \<le> x / 2 ^ 53" and p1: "0 \<le> ?x1"
    by simp_all
  from p1 have p1': "0 \<le> ?x1 * 100" by simp
  from fl_error [OF p1'] have e2: "\<bar>?x2 - ?x1 * 100\<bar> \<le> ?x1 * 100 / 2 ^ 53" and p2: "0 \<le> ?x2"
    by simp_all
  show "0 \<le> ?x2" by (rule p2)
  have "x / 2 ^ 53 \<le> x"
    using x by (simp add: divide_le_eq)
  with e1 have le2: "?x1 \<le> 2 * x"
    by linarith
  then have "?x1 * 100 / 2 ^ 53 \<le> 200 * x / 2 ^ 53"
    by (simp add: divide_right_mono)
  with e2 have e2': "\<bar>?x2 - ?x1 * 100\<bar> \<le> 200 * x / 2 ^ 53"
    by linarith
  have "?x2 * 100 - 10000 * x = 100 * ((?x2 - ?x1 * 100) + 100 * (?x1 - x))"
    by (simp add: algebra_simps)
  then have "\<bar>?x2 * 100 - 10000 * x\<bar> = 100 * \<bar>(?x2 - ?x1 * 100) + 100 * (?x1 - x)\<bar>"
    by (simp only: abs_mult)
  also have "\<dots> \<le> 100 * (\<bar>?x2 - ?x1 * 100\<bar> + 100 * \<bar>?x1 - x\<bar>)"
  proof -
    have "\<bar>(?x2 - ?x1 * 100) + 100 * (?x1 - x)\<bar> \<le> \<bar>?x2 - ?x1 * 100\<bar> + \<bar>100 * (?x1 - x)\<bar>"
      by (rule abs_triangle_ineq)
    moreover have "\<bar>100 * (?x1 - x)\<bar> = 100 * \<bar>?x1 - x\<bar>"
      by (simp only: abs_mult)
    ultimately have "\<bar>(?x2 - ?x1 * 100) + 100 * (?x1 - x)\<bar>
                       \<le> \<bar>?x2 - ?x1 * 100\<bar> + 100 * \<bar>?x1 - x\<bar>"
      by (simp only:)
    then show ?thesis
      by (rule mult_left_mono) simp
  qed
  also have "\<dots> \<le> 100 * (200 * x / 2 ^ 53 + 100 * (x / 2 ^ 53))"
    using e1 e2' by (intro mult_left_mono add_mono) simp_all
  also have "\<dots> = 30000 * x / 2 ^ 53"
    by simp
  finally show "\<bar>?x2 * 100 - 10000 * x\<bar> \<le> 30000 * x / 2 ^ 53" .
qed

lemma div_le_of_le_mult:
  fixes a b c :: rat
  shows "0 < c \<Longrightarrow> a \<le> b * c \<Longrightarrow> a / c \<le> b"
  by (simp add: pos_divide_le_eq)

lemma nearest_of_close:
  fixes y :: rat
  assumes T: "0 < T"
    and close: "\<bar>y - 10000 * of_int M / of_int T\<bar> < 1 / (2 * of_int T)"
  shows "\<bar>of_int \<lfloor>y + 1 / 2\<rfloor> - 10000 * of_int M / of_int T\<bar> \<le> (1 / 2 :: rat)"
proof -
  let ?n = "\<lfloor>y + 1 / 2\<rfloor>"
  let ?z = "10000 * of_int M / of_int T :: rat"
  have Tr: "(0::rat) < of_int T" using T by simp
  have n1: "of_int ?n \<le> y + 1 / 2" and n2: "y + 1 / 2 < of_int ?n + 1"
    by linarith+
  have up: "of_int ?n - ?z \<le> 1 / 2"
  proof (rule ccontr)
    assume "\<not> of_int ?n - ?z \<le> 1 / 2"
    then have gt: "1 / 2 < of_int ?n - ?z" by simp
    then have "0 < (of_int ?n - 1 / 2 - ?z) * (2 * of_int T)"
      using Tr by (intro mult_pos_pos) simp_all
    also have "(of_int ?n - 1 / 2 - ?z) * (2 * of_int T)
                 = of_int ((2 * ?n - 1) * T - 20000 * M)"
      using Tr by (simp add: field_simps)
    finally have "0 < (2 * ?n - 1) * T - 20000 * M"
      by (simp only: of_int_0_less_iff)
    then have "1 \<le> (2 * ?n - 1) * T - 20000 * M" by simp
    then have "(1::rat) \<le> of_int ((2 * ?n - 1) * T - 20000 * M)"
      by (simp only: of_int_1_le_iff)
    also have "of_int ((2 * ?n - 1) * T - 20000 * M)
                 = (of_int ?n - 1 / 2 - ?z) * (2 * of_int T)"
      using Tr by (simp add: field_simps)
    finally have "1 \<le> (of_int ?n - 1 / 2 - ?z) * (2 * of_int T)" .
    then have "1 / (2 * of_int T) \<le> of_int ?n - 1 / 2 - ?z"
      using Tr by (intro div_le_of_le_mult) simp_all
    with n1 have "1 / (2 * of_int T) \<le> y - ?z" by linarith
    with close show False by (simp add: abs_less_iff)
  qed
  have lo: "?z - of_int ?n \<le> 1 / 2"
  proof (rule ccontr)
    assume "\<not> ?z - of_int ?n \<le> 1 / 2"
    then have gt: "1 / 2 < ?z - of_int ?n" by simp
    then have "0 < (?z - of_int ?n - 1 / 2) * (2 * of_int T)"
      using Tr by (intro mult_pos_pos) simp_all
    also have "(?z - of_int ?n - 1 / 2) * (2 * of_int T)
                 = of_int (20000 * M - (2 * ?n + 1) * T)"
      using Tr by (simp add: field_simps)
    finally have "0 < 20000 * M - (2 * ?n + 1) * T"
      by (simp only: of_int_0_less_iff)
    then have "1 \<le> 20000 * M - (2 * ?n + 1) * T" by simp
    then have "(1::rat) \<le> of_int (20000 * M - (2 * ?n + 1) * T)"
      by (simp only: of_int_1_le_iff)
    also have "of_int (20000 * M - (2 * ?n + 1) * T)
                 = (?z - of_int ?n - 1 / 2) * (2 * of_int T)"
      using Tr by (simp add: field_simps)
    finally have "1 \<le> (?z - of_int ?n - 1 / 2) * (2 * of_int T)" .
    then have "1 / (2 * of_int T) \<le> ?z - of_int ?n - 1 / 2"
      using Tr by (intro div_le_of_le_mult) simp_all
    with n2 have "1 / (2 * of_int T) < ?z - y" by linarith
    with close show False by (simp add: abs_less_iff)
  qed
  from up lo show ?thesis by linarith
qed

lemma percentageOf_nearest:
  assumes M: "0 \<le> M" "M < 2 ^ 31" and T: "0 < T"
  shows "\<exists>n. percentageOf M T = Pct n
            \<and> \<bar>of_int n - 10000 * of_int M / of_int T\<bar> \<le> (1 / 2 :: rat)"
proof -
  let ?x = "of_int M / of_int T :: rat"
  let ?x2 = "fl (fl ?x * 100)"
  have Tr: "(0::rat) < of_int T" using T by simp
  have x: "0 \<le> ?x" using M T by simp
  note err = double_product_error [OF x]
  have "60000 * M < 2 ^ 53" using M by simp
  then have "(of_int (60000 * M) :: rat) < of_int (2 ^ 53)"
    by (simp only: of_int_less_iff)
  then have "60000 * (of_int M :: rat) < 2 ^ 53" by simp
  then have "30000 * ?x / 2 ^ 53 < 1 / (2 * of_int T)"
    using Tr by (simp add: field_simps)
  with err(1) have close: "\<bar>?x2 * 100 - 10000 * of_int M / of_int T\<bar> < 1 / (2 * of_int T)"
    by simp
  have "percentageOf M T = Pct \<lfloor>?x2 * 100 + 1 / 2\<rfloor>"
    using T err(2) by (simp add: percentageOf_def jsPercentage_def toFixed2_def)
  with nearest_of_close [OF T close] show ?thesis
    by blast
qed

subsection \<open>What each operation does to the submissions\<close>

text \<open>
  Every handler leaves the submissions table as it is, appends a row with the next id,
  or updates the rows of one id. A completed and approved submission stays so under
  each of them, given the primary key.
\<close>

lemma find_map_same:
  "(\<And>x. P (g x) = P x) \<Longrightarrow> find P (map g xs) = map_option g (find P xs)"
  by (induction xs) auto

lemma distinct_find_unique:
  "distinct (map sub_id xs) \<Longrightarrow> find (\<lambda>s. sub_id s = sid) xs = Some s \<Longrightarrow> s0 \<in> set xs
   \<Longrightarrow> sub_id s0 = sid \<Longrightarrow> s0 = s"
  by (induction xs) (auto split: if_splits simp: image_iff)

lemma rows_updated:
  assumes ok: "submissionIdsOk d"
    and found: "find (\<lambda>t. sub_id t = sid) (assessmentSubmissions d) = Some s"
    and subs: "assessmentSubmissions d' =
                 map (\<lambda>t. if sub_id t = sid' then f t else t) (assessmentSubmissions d)"
    and nxt: "nextSubmissionId d' = nextSubmissionId d"
    and fid: "\<And>t. sub_id (f t) = sub_id t"
  shows "submissionIdsOk d'
       \<and> find (\<lambda>t. sub_id t = sid) (assessmentSubmissions d') = Some (if sid' = sid then f s else s)"
proof -
  let ?g = "\<lambda>t. if sub_id t = sid' then f t else t"
  have ids: "map sub_id (map ?g (assessmentSubmissions d)) = map sub_id (assessmentSubmissions d)"
    by (induction "assessmentSubmissions d") (simp_all add: fid)
  have all: "list_all (\<lambda>t. sub_id t < n) (map ?g xs) = list_all (\<lambda>t. sub_id t < n) xs" for n xs
    by (induction xs) (simp_all add: fid)
  have "submissionIdsOk d'"
    using ok ids by (simp add: submissionIdsOk_def subs nxt all del: map_map)
  moreover have "find (\<lambda>t. sub_id t = sid) (map ?g (assessmentSubmissions d))
                   = map_option ?g (find (\<lambda>t. sub_id t = sid) (assessmentSubmissions d))"
    by (rule find_map_same) (simp add: fid)
  moreover have "sub_id s = sid"
    using found by (auto simp: find_Some_iff)
  ultimately show ?thesis
    by (simp add: subs found)
qed

lemma rows_created:
  assumes ok: "submissionIdsOk d"
    and found: "find (\<lambda>t. sub_id t = sid) (assessmentSubmissions d) = Some s"
    and new: "sub_id new = nextSubmissionId d"
  shows "submissionIdsOk (createSubmission d new)
       \<and> find (\<lambda>t. sub_id t = sid) (assessmentSubmissions (createSubmission d new)) = Some s"
proof -
  from ok have "\<forall>t\<in>set (assessmentSubmissions d). sub_id t < nextSubmissionId d"
    by (simp add: submissionIdsOk_def list_all_iff)
  then have "nextSubmissionId d \<notin> sub_id ` set (assessmentSubmissions d)"
    by auto
  with ok new show ?thesis
    by (auto simp: submissionIdsOk_def createSubmission_def find_append_Some [OF found] list_all_iff)
qed

lemma StartAttempt_store:
  "snd (StartAttempt shuffle now aid userId d) = d
   \<or> (\<exists>new. sub_id new = nextSubmissionId d
           \<and> snd (StartAttempt shuffle now aid userId d) = createSubmission d new)"
proof -
  have "snd (StartAttempt shuffle now aid userId d) = d
      \<or> (\<exists>t n. snd (StartAttempt shuffle now aid userId d)
                  = createSubmission d (newSubmission d now aid userId t n))"
    by (auto simp: StartAttempt_def Let_def split: option.splits)
  moreover have "sub_id (newSubmission d now aid userId t n) = nextSubmissionId d" for t n
    by (simp add: newSubmission_def)
  ultimately show ?thesis by blast
qed

lemma SaveAnswer_store:
  "assessmentSubmissions (snd (SaveAnswer userId body d)) = assessmentSubmissions d
   \<and> nextSubmissionId (snd (SaveAnswer userId body d)) = nextSubmissionId d"
  by (auto simp: SaveAnswer_def upsertAnswer_def split_beta split: option.splits)

lemma Submit_store:
  "snd (Submit now aid userId sid' d) = d
   \<or> (\<exists>s0 f. s0 \<in> set (assessmentSubmissions d) \<and> sub_id s0 = sid' \<and> sub_status s0 = IN_PROGRESS
        \<and> snd (Submit now aid userId sid' d) = updateSubmission d sid' f
        \<and> (\<forall>t. sub_id (f t) = sub_id t))"
proof (cases "find (\<lambda>s. sub_id s = sid' \<and> sub_userId s = userId \<and> sub_assessmentId s = aid
                         \<and> sub_status s = IN_PROGRESS) (assessmentSubmissions d)")
  case None
  then show ?thesis by (simp add: Submit_def)
next
  case (Some s0)
  then have "s0 \<in> set (assessmentSubmissions d) \<and> sub_id s0 = sid' \<and> sub_status s0 = IN_PROGRESS"
    by (auto simp: find_Some_iff)
  then show ?thesis
    using Some
    by (cases "find (\<lambda>a. asm_id a = sub_assessmentId s0) (assessments d)")
       (auto simp: Submit_def Let_def intro!: exI [of _ s0])
qed

lemma GradeAnswer_cases:
  "(assessmentSubmissions (snd (GradeAnswer answerId m d)) = assessmentSubmissions d
      \<and> nextSubmissionId (snd (GradeAnswer answerId m d)) = nextSubmissionId d)
   \<or> (\<exists>answer g tot p b.
         find (\<lambda>a. ans_id a = answerId) (submissionAnswers d) = Some answer
       \<and> snd (GradeAnswer answerId m d)
           = updateSubmission (updateAnswer d answerId g) (ans_submissionId answer)
               (\<lambda>s. s\<lparr> sub_obtainedMarks := tot, sub_percentage := p, sub_isPassed := b \<rparr>))"
proof (cases m)
  case Undefined
  then show ?thesis
    by (auto simp: GradeAnswer_def updateAnswer_def split: option.splits)
next
  case Null
  then show ?thesis
    by (auto simp: GradeAnswer_def split: option.splits)
next
  case (Val x)
  show ?thesis
  proof (cases "find (\<lambda>a. ans_id a = answerId) (submissionAnswers d)")
    case None
    then show ?thesis by (simp add: GradeAnswer_def)
  next
    case (Some answer)
    show ?thesis
    proof (cases "find (\<lambda>q. qn_id q = ans_questionId answer) (questions d)")
      case None
      with Some show ?thesis by (simp add: GradeAnswer_def)
    next
      case question: (Some question)
      show ?thesis
      proof (cases "find (\<lambda>s. sub_id s = ans_submissionId answer) (assessmentSubmissions d)")
        case None
        with Some question Val show ?thesis
          by (simp add: GradeAnswer_def Let_def updateAnswer_def)
      next
        case submission: (Some submission)
        show ?thesis
        proof (cases "find (\<lambda>a. asm_id a = sub_assessmentId submission) (assessments d)")
          case None
          with Some question submission Val show ?thesis
            by (simp add: GradeAnswer_def Let_def updateAnswer_def)
        next
          case assessment: (Some assessment)
          show ?thesis
          proof (cases "marksOutOfRange m (qn_marks question)")
            case True
            with Some question show ?thesis by (simp add: GradeAnswer_def)
          next
            case False
            with Some question submission assessment Val show ?thesis
              by (intro disjI2) (simp add: GradeAnswer_def Let_def, blast)
          qed
        qed
      qed
    qed
  qed
qed

lemma GradeAnswer_store:
  "\<exists>sid' f. assessmentSubmissions (snd (GradeAnswer answerId m d))
              = map (\<lambda>t. if sub_id t = sid' then f t else t) (assessmentSubmissions d)
        \<and> nextSubmissionId (snd (GradeAnswer answerId m d)) = nextSubmissionId d
        \<and> (\<forall>t. sub_id (f t) = sub_id t \<and> sub_status (f t) = sub_status t
                \<and> sub_isCheckedByTeacher (f t) = sub_isCheckedByTeacher t)
        \<and> ((\<forall>t. f t = t) \<or> gradesSubmission (OpGradeAnswer answerId m) d sid')"
  using GradeAnswer_cases [of answerId m d]
proof
  assume "assessmentSubmissions (snd (GradeAnswer answerId m d)) = assessmentSubmissions d
      \<and> nextSubmissionId (snd (GradeAnswer answerId m d)) = nextSubmissionId d"
  then show ?thesis
    by (intro exI [of _ 0] exI [of _ "\<lambda>t. t"]) simp
next
  assume "\<exists>answer g tot p b.
         find (\<lambda>a. ans_id a = answerId) (submissionAnswers d) = Some answer
       \<and> snd (GradeAnswer answerId m d)
           = updateSubmission (updateAnswer d answerId g) (ans_submissionId answer)
               (\<lambda>s. s\<lparr> sub_obtainedMarks := tot, sub_percentage := p, sub_isPassed := b \<rparr>)"
  then obtain answer g tot p b where
    answer: "find (\<lambda>a. ans_id a = answerId) (submissionAnswers d) = Some answer"
    and eq: "snd (GradeAnswer answerId m d)
           = updateSubmission (updateAnswer d answerId g) (ans_submissionId answer)
               (\<lambda>s. s\<lparr> sub_obtainedMarks := tot, sub_percentage := p, sub_isPassed := b \<rparr>)"
    by blast
  show ?thesis
    using answer
    by (intro exI [of _ "ans_submissionId answer"]
              exI [of _ "\<lambda>s. s\<lparr> sub_obtainedMarks := tot, sub_percentage := p, sub_isPassed := b \<rparr>"])
       (simp add: eq updateSubmission_def updateAnswer_def)
qed

lemma ApproveReview_store:
  "snd (ApproveReview now teacherId sid' d) = d
   \<or> snd (ApproveReview now teacherId sid' d)
       = updateSubmission d sid'
           (\<lambda>s. s\<lparr> sub_isCheckedByTeacher := True, sub_checkedBy := Some teacherId,
                   sub_checkedAt := Some now \<rparr>)"
  by (auto simp: ApproveReview_def Let_def split: option.splits)


lemma exec_approved_step:
  assumes ok: "submissionIdsOk d"
    and found: "find (\<lambda>t. sub_id t = sid) (assessmentSubmissions d) = Some s"
    and completed: "sub_status s = COMPLETED"
    and checked: "sub_isCheckedByTeacher s"
  shows "submissionIdsOk (exec op d)
       \<and> (\<exists>s'. find (\<lambda>t. sub_id t = sid) (assessmentSubmissions (exec op d)) = Some s'
               \<and> sub_status s' = COMPLETED \<and> sub_isCheckedByTeacher s'
               \<and> (\<not> gradesSubmission op d sid \<longrightarrow>
                    sub_obtainedMarks s' = sub_obtainedMarks s
                    \<and> sub_percentage s' = sub_percentage s
                    \<and> sub_isPassed s' = sub_isPassed s))"
proof (cases op)
  case (OpStartAttempt shuffle now aid userId)
  from StartAttempt_store [of shuffle now aid userId d] show ?thesis
  proof
    assume "snd (StartAttempt shuffle now aid userId d) = d"
    with ok found completed checked show ?thesis
      by (simp add: OpStartAttempt)
  next
    assume "\<exists>new. sub_id new = nextSubmissionId d
              \<and> snd (StartAttempt shuffle now aid userId d) = createSubmission d new"
    then obtain new where "sub_id new = nextSubmissionId d"
      and "snd (StartAttempt shuffle now aid userId d) = createSubmission d new"
      by blast
    with rows_created [OF ok found, of new] completed checked show ?thesis
      by (simp add: OpStartAttempt)
  qed
next
  case (OpSaveAnswer userId body)
  from SaveAnswer_store [of userId body d] ok found completed checked show ?thesis
    by (simp add: OpSaveAnswer submissionIdsOk_def)
next
  case (OpSubmit now aid userId sid')
  from Submit_store [of now aid userId sid' d] show ?thesis
  proof
    assume "snd (Submit now aid userId sid' d) = d"
    with ok found completed checked show ?thesis
      by (simp add: OpSubmit)
  next
    assume "\<exists>s0 f. s0 \<in> set (assessmentSubmissions d) \<and> sub_id s0 = sid' \<and> sub_status s0 = IN_PROGRESS
        \<and> snd (Submit now aid userId sid' d) = updateSubmission d sid' f
        \<and> (\<forall>t. sub_id (f t) = sub_id t)"
    then obtain s0 f where s0: "s0 \<in> set (assessmentSubmissions d)" "sub_id s0 = sid'"
        "sub_status s0 = IN_PROGRESS"
      and eq: "snd (Submit now aid userId sid' d) = updateSubmission d sid' f"
      and fid: "\<And>t. sub_id (f t) = sub_id t"
      by blast
    have ne: "sid' \<noteq> sid"
    proof
      assume "sid' = sid"
      with ok found s0 have "s0 = s"
        by (auto simp: submissionIdsOk_def intro: distinct_find_unique)
      with s0 completed show False by simp
    qed
    from rows_updated [OF ok found, of "updateSubmission d sid' f" sid' f] fid ne
    have "submissionIdsOk (updateSubmission d sid' f)
        \<and> find (\<lambda>t. sub_id t = sid) (assessmentSubmissions (updateSubmission d sid' f)) = Some s"
      by (simp add: updateSubmission_def)
    with completed checked show ?thesis
      by (simp add: OpSubmit eq)
  qed
next
  case (OpGradeAnswer answerId m)
  from GradeAnswer_store [of answerId m d]
  obtain sid' f where subs: "assessmentSubmissions (snd (GradeAnswer answerId m d))
              = map (\<lambda>t. if sub_id t = sid' then f t else t) (assessmentSubmissions d)"
    and nxt: "nextSubmissionId (snd (GradeAnswer answerId m d)) = nextSubmissionId d"
    and f: "\<And>t. sub_id (f t) = sub_id t \<and> sub_status (f t) = sub_status t
                \<and> sub_isCheckedByTeacher (f t) = sub_isCheckedByTeacher t"
    and g: "(\<forall>t. f t = t) \<or> gradesSubmission (OpGradeAnswer answerId m) d sid'"
    by blast
  from rows_updated [OF ok found subs nxt] f
  have r: "submissionIdsOk (snd (GradeAnswer answerId m d))"
    "find (\<lambda>t. sub_id t = sid) (assessmentSubmissions (snd (GradeAnswer answerId m d)))
       = Some (if sid' = sid then f s else s)"
    by simp_all
  have "\<not> gradesSubmission (OpGradeAnswer answerId m) d sid \<Longrightarrow> (if sid' = sid then f s else s) = s"
    using g by auto
  with r f completed checked show ?thesis
    by (auto simp: OpGradeAnswer)
next
  case (OpApproveReview now teacherId sid')
  let ?f = "\<lambda>s. s\<lparr> sub_isCheckedByTeacher := True, sub_checkedBy := Some teacherId,
                   sub_checkedAt := Some now \<rparr>"
  from ApproveReview_store [of now teacherId sid' d] show ?thesis
  proof
    assume "snd (ApproveReview now teacherId sid' d) = d"
    with ok found completed checked show ?thesis
      by (simp add: OpApproveReview)
  next
    assume eq: "snd (ApproveReview now teacherId sid' d) = updateSubmission d sid' ?f"
    from rows_updated [OF ok found, of "updateSubmission d sid' ?f" sid' ?f]
    have "submissionIdsOk (updateSubmission d sid' ?f)
        \<and> find (\<lambda>t. sub_id t = sid) (assessmentSubmissions (updateSubmission d sid' ?f))
            = Some (if sid' = sid then ?f s else s)"
      by (simp add: updateSubmission_def)
    with completed checked show ?thesis
      by (simp add: OpApproveReview eq)
  qed
qed

lemma run_approved:
  "submissionIdsOk d \<Longrightarrow> isApproved d sid
   \<Longrightarrow> submissionIdsOk (run ops d) \<and> isApproved (run ops d) sid"
proof (induction ops arbitrary: d)
  case Nil
  then show ?case by simp
next
  case (Cons op ops)
  from Cons.prems(2) obtain s where s: "find (\<lambda>t. sub_id t = sid) (assessmentSubmissions d) = Some s"
    "sub_status s = COMPLETED" "sub_isCheckedByTeacher s"
    by (auto simp: isApproved_def split: option.splits)
  from exec_approved_step [OF Cons.prems(1) s, of op]
  have "submissionIdsOk (exec op d)" "isApproved (exec op d) sid"
    by (auto simp: isApproved_def)
  from Cons.IH [OF this] show ?case by simp
qed

text \<open>The rows of the submissions table after an update by primary key.\<close>

lemma assessmentSubmissions_updateSubmission:
  "assessmentSubmissions (updateSubmission d sid f)
     = map (\<lambda>s. if sub_id s = sid then f s else s) (assessmentSubmissions d)"
  by (simp add: updateSubmission_def)

lemma updated_rows:
  assumes "\<And>s. P (f s)" "\<And>s. sub_id (f s) = sub_id s"
  shows "\<forall>t\<in>set (assessmentSubmissions (updateSubmission d sid f)). sub_id t = sid \<longrightarrow> P t"
proof -
  have "\<forall>t\<in>set (map (\<lambda>s. if sub_id s = sid then f s else s) xs). sub_id t = sid \<longrightarrow> P t" for xs
    by (induction xs) (simp_all add: assms)
  from this [of "assessmentSubmissions d"] show ?thesis
    unfolding assessmentSubmissions_updateSubmission .
qed

lemma updated_row_member:
  assumes "s \<in> set (assessmentSubmissions d)" "sub_id s = sid"
  shows "f s \<in> set (assessmentSubmissions (updateSubmission d sid f))"
proof -
  have "s \<in> set xs \<Longrightarrow> f s \<in> set (map (\<lambda>t. if sub_id t = sid then f t else t) xs)" for xs
    using assms(2) by (induction xs) auto
  from this [OF assms(1)] show ?thesis
    unfolding assessmentSubmissions_updateSubmission .
qed

subsection \<open>Resuming an attempt\<close>

text \<open>
  C1 (amended). After a successful \<open>StartAttempt\<close>, a second call for the same assessment
  and user whose preconditions hold and that finds the number of the pair's submissions
  still below \<open>attempts\<close> returns the same submission id, leaves the store as it is (no
  submission is created), and returns the active questions in their stored \<open>order\<close>, never
  shuffled. This is the response of the first call when the first call did not shuffle:
  the assessment does not randomize, or the first call was itself a resume. A shuffled
  order of the first call is not stored, and is not returned again.
\<close>

theorem StartAttempt_resume:
  assumes first: "StartAttempt shuffle1 now1 aid userId d = (Inr r1, d1)"
    and pre: "startPreconditions now2 aid userId d1 a"
    and below: "existingAttempts d1 aid userId < asm_attempts a"
  shows "\<exists>r2. StartAttempt shuffle2 now2 aid userId d1 = (Inr r2, d1)
           \<and> sr_submissionId r2 = sr_submissionId r1
           \<and> sr_questions r2 = map (formatQuestion d1) (activeQuestions d1 aid)
           \<and> (\<not> asm_randomizeQuestions a \<or> inProgressSubmission d aid userId \<noteq> None \<longrightarrow> r2 = r1)"
proof -
  obtain a1 where pre1: "startPreconditions now1 aid userId d a1"
    using StartAttempt_Inr_preconditions [OF first] by blast
  note eq1 = first [unfolded startPreconditions_pass [OF pre1]]
  show ?thesis
  proof (cases "inProgressSubmission d aid userId")
    case (Some s)
    with eq1 have d1: "d1 = d" and r1: "r1 = startResponse d a1 s (activeQuestions d aid)"
      by (auto split: if_splits)
    from pre pre1 d1 have a: "a1 = a"
      using startPreconditions_unique by blast
    show ?thesis
      using Some below pre
      unfolding d1 r1 a
      by (simp add: startPreconditions_pass startResponse_def)
  next
    case None
    let ?s = "newSubmission d now1 aid userId (asm_totalMarks a1) (existingAttempts d aid userId + 1)"
    from None eq1 have d1: "d1 = createSubmission d ?s"
      and r1: "r1 = startResponse d a1 ?s
                     (if asm_randomizeQuestions a1 then shuffle1 (activeQuestions d aid)
                      else activeQuestions d aid)"
      by (auto split: if_splits)
    from pre pre1 d1 have a: "a1 = a"
      using startPreconditions_unique by auto
    have ip: "inProgressSubmission d1 aid userId = Some ?s"
      unfolding d1 by (rule inProgressSubmission_created [OF None])
    have "StartAttempt shuffle2 now2 aid userId d1
            = (Inr (startResponse d1 a ?s (activeQuestions d1 aid)), d1)"
      using below by (simp add: startPreconditions_pass [OF pre] ip)
    then show ?thesis
      using None by (simp add: d1 r1 a startResponse_def)
  qed
qed

text \<open>
  The theorem at the example store: user 7 starts the quiz (two attempts allowed) and
  calls again.
\<close>

theorem StartAttempt_resume_witness:
  "StartAttempt rev 100 1 7 exampleDb =
     (Inr (projr (fst (StartAttempt rev 100 1 7 exampleDb))), snd (StartAttempt rev 100 1 7 exampleDb))
   \<and> startPreconditions 200 1 7 (snd (StartAttempt rev 100 1 7 exampleDb)) quiz
   \<and> existingAttempts (snd (StartAttempt rev 100 1 7 exampleDb)) 1 7 < asm_attempts quiz
   \<and> (\<exists>r2. StartAttempt rev 200 1 7 (snd (StartAttempt rev 100 1 7 exampleDb)) =
              (Inr r2, snd (StartAttempt rev 100 1 7 exampleDb))
           \<and> sr_submissionId r2 = sr_submissionId (projr (fst (StartAttempt rev 100 1 7 exampleDb)))
           \<and> map fq_id (sr_questions r2) = [1, 2])"
proof -
  let ?X = "StartAttempt rev 100 1 7 exampleDb"
  have h1: "?X = (Inr (projr (fst ?X)), snd ?X)"
    by (simp add: example_defs start_defs)
  have h2: "startPreconditions 200 1 7 (snd ?X) quiz"
    by (simp add: example_defs start_defs startPreconditions_def)
  have h3: "existingAttempts (snd ?X) 1 7 < asm_attempts quiz"
    by (simp add: example_defs start_defs)
  have q: "map fq_id (map (formatQuestion (snd ?X)) (activeQuestions (snd ?X) 1)) = [1, 2]"
    by (simp add: example_defs start_defs)
  from StartAttempt_resume [OF h1 h2 h3, of rev] q h1 h2 h3 show ?thesis
    by metis
qed

text \<open>
  The question order of the first call is not frozen: with \<open>randomizeQuestions\<close> set and a
  random sort that swaps the two questions, the first call returns them as 2, 1 and the
  resuming call as 1, 2, both calls succeeding on the same submission in progress.
\<close>

theorem StartAttempt_resume_counterexample:
  "\<not> isl (fst (StartAttempt rev 100 1 7 exampleDb))
   \<and> \<not> isl (fst (StartAttempt rev 200 1 7 (snd (StartAttempt rev 100 1 7 exampleDb))))
   \<and> inProgressSubmission (snd (StartAttempt rev 100 1 7 exampleDb)) 1 7 \<noteq> None
   \<and> map fq_id (sr_questions (projr (fst (StartAttempt rev 100 1 7 exampleDb)))) = [2, 1]
   \<and> map fq_id (sr_questions (projr (fst (StartAttempt rev 200 1 7
                                   (snd (StartAttempt rev 100 1 7 exampleDb)))))) = [1, 2]"
  by (simp add: example_defs start_defs)

subsection \<open>The attempt limit\<close>

lemma find_active_of_find_id:
  "find (\<lambda>a. asm_id a = aid) as = Some a \<Longrightarrow> asm_isActive a
   \<Longrightarrow> find (\<lambda>a. asm_id a = aid \<and> asm_isActive a) as = Some a"
  by (induction as) (auto split: if_splits)

lemma length_filter_map_same:
  "(\<And>x. P (f x) = P x) \<Longrightarrow> length (filter P (map f xs)) = length (filter P xs)"
  by (induction xs) auto

lemma existingAttempts_updateSubmission:
  assumes "\<And>s. sub_assessmentId (f s) = sub_assessmentId s" "\<And>s. sub_userId (f s) = sub_userId s"
  shows "existingAttempts (updateSubmission d sid f) aid userId = existingAttempts d aid userId"
proof -
  have "length (filter (\<lambda>s. sub_assessmentId s = aid \<and> sub_userId s = userId)
                       (map (\<lambda>s. if sub_id s = sid then f s else s) xs))
        = length (filter (\<lambda>s. sub_assessmentId s = aid \<and> sub_userId s = userId) xs)" for xs
    by (induction xs) (simp_all add: assms)
  then show ?thesis
    by (simp add: existingAttempts_def updateSubmission_def)
qed

lemma existingAttempts_createSubmission:
  "existingAttempts (createSubmission d s) aid userId =
     existingAttempts d aid userId + (if sub_assessmentId s = aid \<and> sub_userId s = userId then 1 else 0)"
  by (simp add: existingAttempts_def createSubmission_def)

lemma betweenAttempts_completed:
  assumes inv: "betweenAttempts aid userId d k"
    and new: "sub_id new = sid" "sub_assessmentId new = aid" "sub_userId new = userId"
             "sub_attemptNumber new = int k + 1"
    and f: "\<And>s. sub_assessmentId (f s) = sub_assessmentId s" "\<And>s. sub_userId (f s) = sub_userId s"
           "\<And>s. sub_attemptNumber (f s) = sub_attemptNumber s" "\<And>s. sub_status (f s) \<noteq> IN_PROGRESS"
  shows "betweenAttempts aid userId (updateSubmission (createSubmission d new) sid f) (Suc k)"
proof -
  from inv have cnt: "existingAttempts d aid userId = int k"
    and nip: "inProgressSubmission d aid userId = None"
    and nums: "list_all (\<lambda>s. sub_assessmentId s = aid \<and> sub_userId s = userId
                        \<longrightarrow> sub_attemptNumber s \<le> int k) (assessmentSubmissions d)"
    and nxt: "0 < nextSubmissionId d"
    by (simp_all add: betweenAttempts_def)
  have "existingAttempts (updateSubmission (createSubmission d new) sid f) aid userId = int (Suc k)"
    by (simp add: existingAttempts_updateSubmission f existingAttempts_createSubmission cnt new)
  moreover have "inProgressSubmission (updateSubmission (createSubmission d new) sid f) aid userId = None"
    using nip new f
    by (auto simp: inProgressSubmission_def find_None_iff updateSubmission_def createSubmission_def)
  moreover have "list_all (\<lambda>s. sub_assessmentId s = aid \<and> sub_userId s = userId
                        \<longrightarrow> sub_attemptNumber s \<le> int (Suc k))
                   (assessmentSubmissions (updateSubmission (createSubmission d new) sid f))"
    using nums new f
    by (auto simp: list_all_iff updateSubmission_def createSubmission_def)
  moreover have "0 < nextSubmissionId (updateSubmission (createSubmission d new) sid f)"
    using nxt by (simp add: updateSubmission_def createSubmission_def)
  ultimately show ?thesis
    by (simp add: betweenAttempts_def)
qed

lemma Submit_found:
  assumes "submissionId \<noteq> 0"
    and "find (\<lambda>s. sub_id s = submissionId \<and> sub_userId s = userId \<and> sub_assessmentId s = aid
                     \<and> sub_status s = IN_PROGRESS) (assessmentSubmissions d) = Some s"
    and "find (\<lambda>a. asm_id a = sub_assessmentId s) (assessments d) = Some a"
    and "0 < asm_totalMarks a"
  shows "Submit now aid userId submissionId d =
     (Inr \<lparr> sm_submissionId = submissionId,
            sm_status = ''PENDING_REVIEW'',
            sm_submittedAt = now,
            sm_timeSpent = (now - sub_startTime s) div 1000,
            sm_obtainedMarks = sum_list (map ans_marksObtained (answersOf d submissionId)),
            sm_totalMarks = asm_totalMarks a,
            sm_percentage = percentageOf (sum_list (map ans_marksObtained (answersOf d submissionId)))
                              (asm_totalMarks a) \<rparr>,
      updateSubmission d submissionId
        (\<lambda>t. t\<lparr> sub_endTime := Some now,
                sub_status := COMPLETED,
                sub_obtainedMarks := sum_list (map ans_marksObtained (answersOf d submissionId)),
                sub_percentage := percentageOf (sum_list (map ans_marksObtained (answersOf d submissionId)))
                                    (asm_totalMarks a),
                sub_isPassed := (asm_passingMarks a \<le> sum_list (map ans_marksObtained (answersOf d submissionId))),
                sub_timeSpent := Some ((now - sub_startTime s) div 1000),
                sub_isCheckedByTeacher := False \<rparr>))"
  using assms by (simp add: Submit_def Let_def)

lemma completeAttempt_step:
  assumes pre: "startPreconditions now aid userId d a"
    and byid: "find (\<lambda>a'. asm_id a' = aid) (assessments d) = Some a"
    and total: "0 < asm_totalMarks a"
    and inv: "betweenAttempts aid userId d k"
    and below: "int k < asm_attempts a"
  shows "\<exists>r d'. completeAttempt shuffle now aid userId d = (Inr r, d')
           \<and> betweenAttempts aid userId d' (Suc k)
           \<and> startPreconditions now aid userId d' a
           \<and> find (\<lambda>a'. asm_id a' = aid) (assessments d') = Some a"
proof -
  let ?new = "newSubmission d now aid userId (asm_totalMarks a) (existingAttempts d aid userId + 1)"
  let ?d1 = "createSubmission d ?new"
  from inv have cnt: "existingAttempts d aid userId = int k"
    and nip: "inProgressSubmission d aid userId = None"
    and nums: "list_all (\<lambda>s. sub_assessmentId s = aid \<and> sub_userId s = userId
                        \<longrightarrow> sub_attemptNumber s \<le> int k) (assessmentSubmissions d)"
    and nxt: "0 < nextSubmissionId d"
    by (simp_all add: betweenAttempts_def)
  have free: "\<not> attemptTaken d aid userId (existingAttempts d aid userId + 1)"
    using nums by (auto simp: attemptTaken_def cnt find_None_iff list_all_iff)
  have start: "StartAttempt shuffle now aid userId d =
      (Inr (startResponse ?d1 a ?new
              (if asm_randomizeQuestions a then shuffle (activeQuestions d aid)
               else activeQuestions d aid)), ?d1)"
    using below total free nip by (simp add: startPreconditions_pass [OF pre] cnt)
  have old: "find (\<lambda>s. sub_id s = nextSubmissionId d \<and> sub_userId s = userId \<and> sub_assessmentId s = aid
                     \<and> sub_status s = IN_PROGRESS) (assessmentSubmissions d) = None"
    using nip by (auto simp: inProgressSubmission_def find_None_iff)
  have found: "find (\<lambda>s. sub_id s = nextSubmissionId d \<and> sub_userId s = userId \<and> sub_assessmentId s = aid
                     \<and> sub_status s = IN_PROGRESS) (assessmentSubmissions ?d1) = Some ?new"
    by (simp add: createSubmission_def find_append_None [OF old]) (simp add: newSubmission_def)
  have asm1: "find (\<lambda>a'. asm_id a' = sub_assessmentId ?new) (assessments ?d1) = Some a"
    using byid by (simp add: createSubmission_def newSubmission_def)
  note sub = Submit_found [OF _ found asm1 total, of now]
  define d2 where "d2 = snd (Submit now aid userId (nextSubmissionId d) ?d1)"
  have ca: "completeAttempt shuffle now aid userId d = (fst (Submit now aid userId (nextSubmissionId d) ?d1), d2)"
    by (simp add: completeAttempt_def start startResponse_def d2_def) (simp add: newSubmission_def)
  have d2: "d2 = updateSubmission ?d1 (nextSubmissionId d)
        (\<lambda>t. t\<lparr> sub_endTime := Some now,
                sub_status := COMPLETED,
                sub_obtainedMarks := sum_list (map ans_marksObtained (answersOf ?d1 (nextSubmissionId d))),
                sub_percentage := percentageOf (sum_list (map ans_marksObtained (answersOf ?d1 (nextSubmissionId d))))
                                    (asm_totalMarks a),
                sub_isPassed := (asm_passingMarks a \<le> sum_list (map ans_marksObtained (answersOf ?d1 (nextSubmissionId d)))),
                sub_timeSpent := Some ((now - sub_startTime ?new) div 1000),
                sub_isCheckedByTeacher := False \<rparr>)"
    using nxt by (simp add: d2_def sub)
  have isr: "\<exists>r. fst (Submit now aid userId (nextSubmissionId d) ?d1) = Inr r"
    using nxt by (simp add: sub)
  have inv2: "betweenAttempts aid userId d2 (Suc k)"
    unfolding d2
    by (rule betweenAttempts_completed [OF inv]) (simp_all add: newSubmission_def cnt)
  have pre2: "startPreconditions now aid userId d2 a"
    using pre unfolding d2
    by (simp add: startPreconditions_def updateSubmission_def createSubmission_def isEnrolled_def)
  have byid2: "find (\<lambda>a'. asm_id a' = aid) (assessments d2) = Some a"
    using byid unfolding d2 by (simp add: updateSubmission_def createSubmission_def)
  from isr obtain r where "fst (Submit now aid userId (nextSubmissionId d) ?d1) = Inr r" ..
  with ca inv2 pre2 byid2 show ?thesis
    by auto
qed


lemma completeAttempts_all:
  assumes total: "0 < asm_totalMarks a"
  shows "startPreconditions now aid userId d a
     \<Longrightarrow> find (\<lambda>a'. asm_id a' = aid) (assessments d) = Some a
     \<Longrightarrow> betweenAttempts aid userId d k
     \<Longrightarrow> int k + int n \<le> asm_attempts a
     \<Longrightarrow> \<exists>d'. completeAttempts n shuffle now aid userId d = (True, d')
            \<and> betweenAttempts aid userId d' (k + n)
            \<and> startPreconditions now aid userId d' a"
proof (induction n arbitrary: d k)
  case 0
  then show ?case by simp
next
  case (Suc n)
  from Suc.prems have "int k < asm_attempts a" by simp
  from completeAttempt_step [OF Suc.prems(1) Suc.prems(2) total Suc.prems(3) this, of shuffle]
  obtain r d1 where step: "completeAttempt shuffle now aid userId d = (Inr r, d1)"
    and inv1: "betweenAttempts aid userId d1 (Suc k)"
    and pre1: "startPreconditions now aid userId d1 a"
    and byid1: "find (\<lambda>a'. asm_id a' = aid) (assessments d1) = Some a"
    by blast
  from Suc.prems have "int (Suc k) + int n \<le> asm_attempts a" by simp
  from Suc.IH [OF pre1 byid1 inv1 this] step show ?case
    by simp
qed

lemma betweenAttempts_initial:
  assumes "existingAttempts d aid userId = 0" "0 < nextSubmissionId d"
  shows "betweenAttempts aid userId d 0"
proof -
  from assms(1) have "filter (\<lambda>s. sub_assessmentId s = aid \<and> sub_userId s = userId)
                        (assessmentSubmissions d) = []"
    by (simp add: existingAttempts_def)
  then have none: "\<forall>s\<in>set (assessmentSubmissions d). \<not> (sub_assessmentId s = aid \<and> sub_userId s = userId)"
    by (simp add: filter_empty_conv)
  then show ?thesis
    using assms by (auto simp: betweenAttempts_def inProgressSubmission_def find_None_iff list_all_iff)
qed

lemma AttemptsExceeded_iff:
  assumes "startPreconditions now aid userId d a"
  shows "fst (StartAttempt shuffle now aid userId d) = Inl AttemptsExceeded
           \<longleftrightarrow> asm_attempts a \<le> existingAttempts d aid userId"
  by (simp add: startPreconditions_pass [OF assms] split: option.splits)

text \<open>
  C2 (amended). For an assessment with \<open>attempts = N\<close> whose preconditions hold for the
  user, and a user without submissions for it: \<open>N\<close> attempts that are each started and
  then submitted all succeed, the store then holds \<open>N\<close> submissions of the pair, and the
  next \<open>StartAttempt\<close> fails with \<open>AttemptsExceeded\<close>, the store unchanged. In any store,
  a \<open>StartAttempt\<close> whose preconditions hold fails with \<open>AttemptsExceeded\<close> exactly when
  the number of the pair's submissions, of every status, is at least \<open>attempts\<close>. (A call
  that resumes a submission in progress adds no submission, so calls as such are not
  counted.)
\<close>

theorem StartAttempt_attempt_limit:
  assumes pre: "startPreconditions now aid userId d a"
    and byid: "find (\<lambda>a'. asm_id a' = aid) (assessments d) = Some a"
    and total: "0 < asm_totalMarks a"
    and fresh: "existingAttempts d aid userId = 0"
    and ids: "0 < nextSubmissionId d"
    and N: "asm_attempts a = int N"
  shows "fst (completeAttempts N shuffle now aid userId d)
       \<and> existingAttempts (snd (completeAttempts N shuffle now aid userId d)) aid userId = int N
       \<and> StartAttempt shuffle' now aid userId (snd (completeAttempts N shuffle now aid userId d))
           = (Inl AttemptsExceeded, snd (completeAttempts N shuffle now aid userId d))
       \<and> (\<forall>d' now' sh. startPreconditions now' aid userId d' a \<longrightarrow>
             (fst (StartAttempt sh now' aid userId d') = Inl AttemptsExceeded
                \<longleftrightarrow> asm_attempts a \<le> existingAttempts d' aid userId))"
proof -
  have "int 0 + int N \<le> asm_attempts a" using N by simp
  from completeAttempts_all [OF total pre byid betweenAttempts_initial [OF fresh ids] this, of shuffle]
  obtain dN where run: "completeAttempts N shuffle now aid userId d = (True, dN)"
    and inv: "betweenAttempts aid userId dN N"
    and preN: "startPreconditions now aid userId dN a"
    by auto
  from inv have cnt: "existingAttempts dN aid userId = int N"
    by (simp add: betweenAttempts_def)
  have "StartAttempt shuffle' now aid userId dN = (Inl AttemptsExceeded, dN)"
    by (simp add: startPreconditions_pass [OF preN] cnt N)
  with run cnt show ?thesis
    by (simp add: AttemptsExceeded_iff)
qed

text \<open>The theorem at the example store: the quiz allows two attempts.\<close>

theorem StartAttempt_attempt_limit_witness:
  "startPreconditions 100 1 7 exampleDb quiz
   \<and> find (\<lambda>a'. asm_id a' = 1) (assessments exampleDb) = Some quiz
   \<and> 0 < asm_totalMarks quiz
   \<and> existingAttempts exampleDb 1 7 = 0
   \<and> 0 < nextSubmissionId exampleDb
   \<and> asm_attempts quiz = int 2
   \<and> fst (completeAttempts 2 rev 100 1 7 exampleDb)
   \<and> existingAttempts (snd (completeAttempts 2 rev 100 1 7 exampleDb)) 1 7 = int 2
   \<and> StartAttempt rev 100 1 7 (snd (completeAttempts 2 rev 100 1 7 exampleDb))
        = (Inl AttemptsExceeded, snd (completeAttempts 2 rev 100 1 7 exampleDb))"
proof -
  have h1: "startPreconditions 100 1 7 exampleDb quiz"
    by (simp add: example_defs start_defs startPreconditions_def)
  have h2: "find (\<lambda>a'. asm_id a' = 1) (assessments exampleDb) = Some quiz"
    by (simp add: example_defs)
  have h3: "0 < asm_totalMarks quiz" by (simp add: quiz_def)
  have h4: "existingAttempts exampleDb 1 7 = 0" by (simp add: example_defs start_defs)
  have h5: "0 < nextSubmissionId exampleDb" by (simp add: example_defs)
  have h6: "asm_attempts quiz = int 2" by (simp add: quiz_def)
  from StartAttempt_attempt_limit [OF h1 h2 h3 h4 h5 h6, of rev rev] h1 h2 h3 h4 h5 h6
  show ?thesis by simp
qed

text \<open>
  Calls are not attempts: with \<open>attempts = 2\<close>, three calls in a row all succeed, the
  second and the third resuming the submission of the first.
\<close>

theorem StartAttempt_attempt_limit_counterexample:
  "asm_attempts quiz = 2
   \<and> \<not> isl (fst (StartAttempt id 100 1 7 exampleDb))
   \<and> \<not> isl (fst (StartAttempt id 200 1 7 (snd (StartAttempt id 100 1 7 exampleDb))))
   \<and> \<not> isl (fst (StartAttempt id 300 1 7
                 (snd (StartAttempt id 200 1 7 (snd (StartAttempt id 100 1 7 exampleDb))))))
   \<and> fst (StartAttempt id 300 1 7
            (snd (StartAttempt id 200 1 7 (snd (StartAttempt id 100 1 7 exampleDb)))))
        \<noteq> Inl AttemptsExceeded"
  by (simp add: example_defs start_defs)

subsection \<open>Grading after approval\<close>

text \<open>
  C3 (amended). Once a submission is completed and approved, every core operation leaves
  it completed and approved, and every core operation other than the grading of one of
  its own answers leaves its obtained marks, percentage and pass flag as they are.
  \<open>GradeAnswer\<close> has no test of \<open>isCheckedByTeacher\<close>: grading an answer of an approved
  submission recomputes and overwrites these three fields as before the approval.
\<close>

theorem approved_scores_kept:
  assumes ok: "submissionIdsOk d"
    and found: "find (\<lambda>t. sub_id t = sid) (assessmentSubmissions d) = Some s"
    and completed: "sub_status s = COMPLETED"
    and checked: "sub_isCheckedByTeacher s"
  shows "\<exists>s'. find (\<lambda>t. sub_id t = sid) (assessmentSubmissions (exec op d)) = Some s'
            \<and> sub_status s' = COMPLETED \<and> sub_isCheckedByTeacher s'
            \<and> (\<not> gradesSubmission op d sid \<longrightarrow>
                 sub_obtainedMarks s' = sub_obtainedMarks s
                 \<and> sub_percentage s' = sub_percentage s
                 \<and> sub_isPassed s' = sub_isPassed s)"
  using exec_approved_step [OF assms, of op] by blast

text \<open>The theorem at the example run: the approved submission is approved once more.\<close>

theorem approved_scores_kept_witness:
  "submissionIdsOk approvedDb
   \<and> find (\<lambda>t. sub_id t = 1) (assessmentSubmissions approvedDb) = Some (hd (assessmentSubmissions approvedDb))
   \<and> sub_status (hd (assessmentSubmissions approvedDb)) = COMPLETED
   \<and> sub_isCheckedByTeacher (hd (assessmentSubmissions approvedDb))
   \<and> \<not> gradesSubmission (OpApproveReview 7000 8 1) approvedDb 1
   \<and> (\<exists>s'. find (\<lambda>t. sub_id t = 1) (assessmentSubmissions (exec (OpApproveReview 7000 8 1) approvedDb))
               = Some s'
           \<and> sub_isCheckedByTeacher s' \<and> sub_obtainedMarks s' = 8 \<and> sub_percentage s' = Pct 8000
           \<and> sub_isPassed s')"
proof -
  let ?s = "hd (assessmentSubmissions approvedDb)"
  have h1: "submissionIdsOk approvedDb"
    by (simp add: submissionIdsOk_def run_eqs example_defs)
  have h2: "find (\<lambda>t. sub_id t = 1) (assessmentSubmissions approvedDb) = Some ?s"
    by (simp add: run_eqs)
  have h3: "sub_status ?s = COMPLETED" by (simp add: run_eqs)
  have h4: "sub_isCheckedByTeacher ?s" by (simp add: run_eqs)
  have h5: "\<not> gradesSubmission (OpApproveReview 7000 8 1) approvedDb 1" by simp
  have v: "sub_obtainedMarks ?s = 8" "sub_percentage ?s = Pct 8000" "sub_isPassed ?s"
    by (simp_all add: run_eqs)
  from approved_scores_kept [OF h1 h2 h3 h4, of "OpApproveReview 7000 8 1"] h1 h2 h3 h4 h5 v
  show ?thesis by auto
qed

text \<open>
  Approval does not close grading: after \<open>ApproveReview\<close> has succeeded on the example
  submission (8 marks, 80.00 percent), grading its essay with 5 marks succeeds and makes
  it 10 marks and 100.00 percent, the submission still approved.
\<close>

theorem approved_scores_kept_counterexample:
  "approvedDb = snd (ApproveReview 6000 9 1 gradedDb)
   \<and> \<not> isl (fst (ApproveReview 6000 9 1 gradedDb))
   \<and> map sub_isCheckedByTeacher (assessmentSubmissions approvedDb) = [True]
   \<and> map sub_obtainedMarks (assessmentSubmissions approvedDb) = [8]
   \<and> map sub_percentage (assessmentSubmissions approvedDb) = [Pct 8000]
   \<and> \<not> isl (fst (GradeAnswer 2 (Val 5) approvedDb))
   \<and> map sub_isCheckedByTeacher (assessmentSubmissions (snd (GradeAnswer 2 (Val 5) approvedDb))) = [True]
   \<and> map sub_obtainedMarks (assessmentSubmissions (snd (GradeAnswer 2 (Val 5) approvedDb))) = [10]
   \<and> map sub_percentage (assessmentSubmissions (snd (GradeAnswer 2 (Val 5) approvedDb))) = [Pct 10000]"
proof -
  have a: "approvedDb = snd (ApproveReview 6000 9 1 gradedDb)"
    by (simp add: approvedDb_def)
  have b: "\<not> isl (fst (ApproveReview 6000 9 1 gradedDb))"
    by (simp add: gradedDb_eq submittedDb_eq answeredDb_eq startedDb_eq example_defs approve_defs Let_def)
  have c: "map sub_isCheckedByTeacher (assessmentSubmissions approvedDb) = [True]
   \<and> map sub_obtainedMarks (assessmentSubmissions approvedDb) = [8]
   \<and> map sub_percentage (assessmentSubmissions approvedDb) = [Pct 8000]"
    by (simp add: run_eqs)
  have d: "\<not> isl (fst (GradeAnswer 2 (Val 5) approvedDb))
   \<and> map sub_isCheckedByTeacher (assessmentSubmissions (snd (GradeAnswer 2 (Val 5) approvedDb))) = [True]
   \<and> map sub_obtainedMarks (assessmentSubmissions (snd (GradeAnswer 2 (Val 5) approvedDb))) = [10]
   \<and> map sub_percentage (assessmentSubmissions (snd (GradeAnswer 2 (Val 5) approvedDb))) = [Pct 10000]"
    by (simp add: run_eqs example_defs grade_defs Let_def percentageOf_examples fl_examples)
  from a b c d show ?thesis by blast
qed

subsection \<open>What Submit stores\<close>

lemma examAnsweredDb_eq:
  "examAnsweredDb = exampleDb
     \<lparr> assessmentSubmissions :=
         [\<lparr> sub_id = 1, sub_assessmentId = 2, sub_userId = 7, sub_startTime = 100,
            sub_endTime = None, sub_status = IN_PROGRESS, sub_totalMarks = 160,
            sub_obtainedMarks = 0, sub_percentage = Pct 0, sub_isPassed = False,
            sub_attemptNumber = 1, sub_timeSpent = None, sub_isCheckedByTeacher = False,
            sub_checkedBy = None, sub_checkedAt = None, sub_createdAt = 100 \<rparr>],
       nextSubmissionId := 2,
       submissionAnswers :=
         [\<lparr> ans_id = 1, ans_submissionId = 1, ans_questionId = 3, ans_selectedOptionId = Some 3,
            ans_textAnswer = None, ans_isCorrect = True, ans_marksObtained = 23,
            ans_timeSpent = Some 60 \<rparr>],
       nextAnswerId := 2 \<rparr>"
  by (simp add: examAnsweredDb_def examAnswer_def example_defs start_defs save_defs)

text \<open>
  C4 (amended). For a submission in progress of the caller whose saved answers sum to
  marks \<open>M\<close>, with \<open>T\<close> the current total of the parent assessment: if \<open>T \<le> 0\<close>, \<open>Submit\<close>
  fails with \<open>InvalidConfiguration\<close> and the store is unchanged. If \<open>T > 0\<close>, and \<open>M\<close> is
  within the range of the INTEGER column, \<open>Submit\<close> succeeds; the row of the submission
  becomes the stored row with the end time, status COMPLETED, obtained marks \<open>M\<close>, the
  pass flag \<open>M \<ge> passingMarks\<close>, the time spent and \<^verbatim>\<open>isCheckedByTeacher = false\<close>, its
  snapshot of the total untouched; and the percentage is that of the handler's
  computation in double precision, \<^verbatim>\<open>((M / T) * 100).toFixed(2)\<close>, which for \<open>M \<ge> 0\<close> is a
  number of hundredths within half a hundredth of \<open>M / T * 100\<close>: a nearest two-place
  decimal, though at a tie not always the one that rounding the exact quotient gives.
\<close>

theorem Submit_finalizes:
  assumes sid: "submissionId \<noteq> 0"
    and found: "find (\<lambda>s. sub_id s = submissionId \<and> sub_userId s = userId \<and> sub_assessmentId s = aid
                           \<and> sub_status s = IN_PROGRESS) (assessmentSubmissions d) = Some s"
    and asm: "find (\<lambda>a. asm_id a = sub_assessmentId s) (assessments d) = Some a"
    and M: "sum_list (map ans_marksObtained (answersOf d submissionId)) = M"
    and T: "asm_totalMarks a = T"
  shows "(T \<le> 0 \<longrightarrow> Submit now aid userId submissionId d = (Inl InvalidConfiguration, d))
       \<and> (0 < T \<and> - 2147483648 \<le> M \<and> M \<le> 2147483647 \<longrightarrow>
            \<not> isl (fst (Submit now aid userId submissionId d))
          \<and> s\<lparr> sub_endTime := Some now,
                sub_status := COMPLETED,
                sub_obtainedMarks := M,
                sub_percentage := percentageOf M T,
                sub_isPassed := (asm_passingMarks a \<le> M),
                sub_timeSpent := Some ((now - sub_startTime s) div 1000),
                sub_isCheckedByTeacher := False \<rparr>
              \<in> set (assessmentSubmissions (snd (Submit now aid userId submissionId d)))
          \<and> (\<forall>t\<in>set (assessmentSubmissions (snd (Submit now aid userId submissionId d))).
                sub_id t = submissionId \<longrightarrow>
                  sub_status t = COMPLETED
                \<and> sub_obtainedMarks t = M
                \<and> sub_percentage t = percentageOf M T
                \<and> sub_isPassed t = (asm_passingMarks a \<le> M)
                \<and> \<not> sub_isCheckedByTeacher t)
          \<and> (0 \<le> M \<longrightarrow>
                (\<exists>n. percentageOf M T = Pct n
                    \<and> \<bar>of_int n - 10000 * of_int M / of_int T\<bar> \<le> (1 / 2 :: rat))))"
proof (intro conjI impI)
  assume "T \<le> 0"
  then show "Submit now aid userId submissionId d = (Inl InvalidConfiguration, d)"
    using sid found asm T by (simp add: Submit_def Let_def)
next
  assume "0 < T \<and> - 2147483648 \<le> M \<and> M \<le> 2147483647"
  then have total: "0 < asm_totalMarks a"
    using T by simp
  note eq = Submit_found [OF sid found asm total, of now, unfolded M T]
  from found have mem: "s \<in> set (assessmentSubmissions d)" "sub_id s = submissionId"
    by (auto simp: find_Some_iff)
  show "\<not> isl (fst (Submit now aid userId submissionId d))"
    by (simp add: eq)
  show "s\<lparr> sub_endTime := Some now,
                sub_status := COMPLETED,
                sub_obtainedMarks := M,
                sub_percentage := percentageOf M T,
                sub_isPassed := (asm_passingMarks a \<le> M),
                sub_timeSpent := Some ((now - sub_startTime s) div 1000),
                sub_isCheckedByTeacher := False \<rparr>
              \<in> set (assessmentSubmissions (snd (Submit now aid userId submissionId d)))"
    unfolding eq snd_conv by (rule updated_row_member [OF mem])
  show "\<forall>t\<in>set (assessmentSubmissions (snd (Submit now aid userId submissionId d))).
                sub_id t = submissionId \<longrightarrow>
                  sub_status t = COMPLETED
                \<and> sub_obtainedMarks t = M
                \<and> sub_percentage t = percentageOf M T
                \<and> sub_isPassed t = (asm_passingMarks a \<le> M)
                \<and> \<not> sub_isCheckedByTeacher t"
    unfolding eq snd_conv by (rule updated_rows) simp_all
next
  assume "0 < T \<and> - 2147483648 \<le> M \<and> M \<le> 2147483647" and "0 \<le> M"
  then show "\<exists>n. percentageOf M T = Pct n
                    \<and> \<bar>of_int n - 10000 * of_int M / of_int T\<bar> \<le> (1 / 2 :: rat)"
    by (intro percentageOf_nearest) simp_all
qed

text \<open>
  The theorem at the example run, with the quiz's total corrected from 10 to 20 after
  the start: the 5 marks are 25.00 percent, of the current total and not of the
  snapshot.
\<close>

theorem Submit_finalizes_witness:
  "find (\<lambda>s. sub_id s = 1 \<and> sub_userId s = 7 \<and> sub_assessmentId s = 1 \<and> sub_status s = IN_PROGRESS)
        (assessmentSubmissions retotalledDb) = Some (hd (assessmentSubmissions retotalledDb))
   \<and> find (\<lambda>a. asm_id a = sub_assessmentId (hd (assessmentSubmissions retotalledDb)))
           (assessments retotalledDb) = Some (quiz\<lparr> asm_totalMarks := 20 \<rparr>)
   \<and> sum_list (map ans_marksObtained (answersOf retotalledDb 1)) = 5
   \<and> asm_totalMarks (quiz\<lparr> asm_totalMarks := 20 \<rparr>) = 20
   \<and> sub_totalMarks (hd (assessmentSubmissions retotalledDb)) = 10
   \<and> \<not> isl (fst (Submit 5100 1 7 1 retotalledDb))
   \<and> map sub_status (assessmentSubmissions (snd (Submit 5100 1 7 1 retotalledDb))) = [COMPLETED]
   \<and> map sub_obtainedMarks (assessmentSubmissions (snd (Submit 5100 1 7 1 retotalledDb))) = [5]
   \<and> map sub_percentage (assessmentSubmissions (snd (Submit 5100 1 7 1 retotalledDb))) = [Pct 2500]
   \<and> map sub_isPassed (assessmentSubmissions (snd (Submit 5100 1 7 1 retotalledDb))) = [True]
   \<and> map sub_isCheckedByTeacher (assessmentSubmissions (snd (Submit 5100 1 7 1 retotalledDb))) = [False]"
proof -
  let ?s = "hd (assessmentSubmissions retotalledDb)"
  let ?a = "quiz\<lparr> asm_totalMarks := 20 \<rparr>"
  let ?d' = "snd (Submit 5100 1 7 1 retotalledDb)"
  have h0: "(1::int) \<noteq> 0" by simp
  have h1: "find (\<lambda>s. sub_id s = 1 \<and> sub_userId s = 7 \<and> sub_assessmentId s = 1
                       \<and> sub_status s = IN_PROGRESS) (assessmentSubmissions retotalledDb) = Some ?s"
    by (simp add: retotalledDb_def answeredDb_eq startedDb_eq)
  have h2: "find (\<lambda>a. asm_id a = sub_assessmentId ?s) (assessments retotalledDb) = Some ?a"
    by (simp add: retotalledDb_def answeredDb_eq startedDb_eq quiz_def)
  have h3: "sum_list (map ans_marksObtained (answersOf retotalledDb 1)) = 5"
    by (simp add: retotalledDb_def answeredDb_eq startedDb_eq answersOf_def)
  have h4: "asm_totalMarks ?a = 20"
    by simp
  have snap: "sub_totalMarks ?s = 10"
    by (simp add: retotalledDb_def answeredDb_eq startedDb_eq)
  have pass: "asm_passingMarks ?a = 5"
    by (simp add: quiz_def)
  have "0 < asm_totalMarks ?a"
    by simp
  note eq = Submit_found [OF h0 h1 h2 this, of 5100]
  have ids: "map sub_id (assessmentSubmissions ?d') = [1]"
    unfolding eq snd_conv assessmentSubmissions_updateSubmission
    by (simp add: retotalledDb_def answeredDb_eq startedDb_eq)
  then obtain r where r: "assessmentSubmissions ?d' = [r]" "sub_id r = 1"
    by (cases "assessmentSubmissions ?d'") auto
  from Submit_finalizes [OF h0 h1 h2 h3 h4, of 5100]
  have ok: "\<not> isl (fst (Submit 5100 1 7 1 retotalledDb))"
    and all: "\<forall>t\<in>set (assessmentSubmissions ?d'). sub_id t = 1 \<longrightarrow>
                  sub_status t = COMPLETED \<and> sub_obtainedMarks t = 5
                \<and> sub_percentage t = percentageOf 5 20 \<and> sub_isPassed t = (asm_passingMarks ?a \<le> 5)
                \<and> \<not> sub_isCheckedByTeacher t"
    by simp_all
  from all r pass have "sub_status r = COMPLETED \<and> sub_obtainedMarks r = 5
                \<and> sub_percentage r = Pct 2500 \<and> sub_isPassed r \<and> \<not> sub_isCheckedByTeacher r"
    by (simp add: percentageOf_examples)
  with h1 h2 h3 h4 snap ok r show ?thesis
    by simp
qed

text \<open>
  The percentage is not always the rounding of the exact \<open>M / T * 100\<close>: for 23 marks of
  160 that is 14.375, which rounds to 14.38, while the product of doubles is just below
  14.375 and the handler stores 14.37.
\<close>

theorem Submit_finalizes_counterexample:
  "\<not> isl (fst (Submit 5100 2 7 1 examAnsweredDb))
   \<and> sm_obtainedMarks (projr (fst (Submit 5100 2 7 1 examAnsweredDb))) = 23
   \<and> sm_totalMarks (projr (fst (Submit 5100 2 7 1 examAnsweredDb))) = 160
   \<and> sm_percentage (projr (fst (Submit 5100 2 7 1 examAnsweredDb))) = Pct 1437
   \<and> map sub_percentage (assessmentSubmissions (snd (Submit 5100 2 7 1 examAnsweredDb))) = [Pct 1437]
   \<and> specPercentage 23 160 = Pct 1438
   \<and> (23 / 160 * 100 :: rat) = 14375 / 1000"
  by (simp add: examAnsweredDb_eq example_defs submit_defs Let_def percentageOf_examples)


subsection \<open>Automatic grading on save\<close>

lemma SaveAnswer_found:
  assumes "find (\<lambda>s. sub_id s = sa_submissionId body \<and> sub_userId s = userId
                      \<and> sub_status s = IN_PROGRESS) (assessmentSubmissions d) = Some s"
    and "find (\<lambda>q. qn_id q = sa_questionId body) (questions d) = Some q"
  shows "SaveAnswer userId body d =
     (if optionFkOk d (sa_selectedOptionId body)
      then (Inr (), upsertAnswer d body (fst (autoGrade d q (sa_selectedOptionId body)))
                                      (snd (autoGrade d q (sa_selectedOptionId body))))
      else (Inl InternalError, d))"
  using assms by (simp add: SaveAnswer_def split_beta)


lemma map_keyed_update:
  assumes "\<And>a. K (g a) = K a" "\<And>a. P (g a)"
  shows "(a0 \<in> set xs \<and> K a0 \<longrightarrow> (\<exists>a\<in>set (map (\<lambda>a. if K a then g a else a) xs). K a))
       \<and> (\<forall>a\<in>set (map (\<lambda>a. if K a then g a else a) xs). K a \<longrightarrow> P a)"
  using assms by (induction xs) auto

lemma upsertAnswer_stored:
  "(\<exists>a\<in>set (submissionAnswers (upsertAnswer d body c m)).
       answerKey (sa_submissionId body) (sa_questionId body) a)
   \<and> (\<forall>a\<in>set (submissionAnswers (upsertAnswer d body c m)).
       answerKey (sa_submissionId body) (sa_questionId body) a
       \<longrightarrow> ans_isCorrect a = c \<and> ans_marksObtained a = m)"
proof (cases "find (answerKey (sa_submissionId body) (sa_questionId body)) (submissionAnswers d)")
  case None
  then have "\<forall>a\<in>set (submissionAnswers d). \<not> answerKey (sa_submissionId body) (sa_questionId body) a"
    by (simp add: find_None_iff)
  with None show ?thesis
    by (auto simp: upsertAnswer_def answerKey_def)
next
  case (Some a0)
  then have a0: "a0 \<in> set (submissionAnswers d) \<and> answerKey (sa_submissionId body) (sa_questionId body) a0"
    by (auto simp: find_Some_iff in_set_conv_nth)
  let ?g = "\<lambda>a. a\<lparr> ans_selectedOptionId := for_update (sa_selectedOptionId body) (ans_selectedOptionId a),
                    ans_textAnswer := for_update (sa_textAnswer body) (ans_textAnswer a),
                    ans_isCorrect := c,
                    ans_marksObtained := m,
                    ans_timeSpent := for_update (sa_timeSpent body) (ans_timeSpent a) \<rparr>"
  have upd: "(a0 \<in> set (submissionAnswers d) \<and> answerKey (sa_submissionId body) (sa_questionId body) a0 \<longrightarrow>
          (\<exists>a\<in>set (map (\<lambda>a. if answerKey (sa_submissionId body) (sa_questionId body) a then ?g a else a)
                        (submissionAnswers d)). answerKey (sa_submissionId body) (sa_questionId body) a))
       \<and> (\<forall>a\<in>set (map (\<lambda>a. if answerKey (sa_submissionId body) (sa_questionId body) a then ?g a else a)
                        (submissionAnswers d)).
            answerKey (sa_submissionId body) (sa_questionId body) a \<longrightarrow> ans_isCorrect a = c \<and> ans_marksObtained a = m)"
    by (rule map_keyed_update) (simp_all add: answerKey_def)
  have eq: "submissionAnswers (upsertAnswer d body c m) =
      map (\<lambda>a. if answerKey (sa_submissionId body) (sa_questionId body) a then ?g a else a)
          (submissionAnswers d)"
    using Some by (simp add: upsertAnswer_def)
  from upd a0 show ?thesis
    unfolding eq by (rule_tac conjI) (erule conjE, erule impE, assumption+, erule conjE, assumption)
qed



subsection \<open>The range of manual marks\<close>

text \<open>
  For marks that are a number the range test does what it says: the call fails with
  \<open>MarksOutOfRange\<close> exactly when the number is below 0 or above the question's marks,
  and then nothing is written.
\<close>

lemma GradeAnswer_number_range:
  assumes answer: "find (\<lambda>a. ans_id a = answerId) (submissionAnswers d) = Some answer"
    and question: "find (\<lambda>q. qn_id q = ans_questionId answer) (questions d) = Some question"
  shows "fst (GradeAnswer answerId (Val x) d) = Inl MarksOutOfRange
           \<longleftrightarrow> x < 0 \<or> of_int (qn_marks question) < x"
    and "x < 0 \<or> of_int (qn_marks question) < x
           \<Longrightarrow> GradeAnswer answerId (Val x) d = (Inl MarksOutOfRange, d)"
  using assms
  by (auto simp: GradeAnswer_def Let_def split: option.splits)

lemma GradeAnswer_number_range_example:
  "GradeAnswer 2 (Val 6) submittedDb = (Inl MarksOutOfRange, submittedDb)"
  "GradeAnswer 2 (Val (- 1)) submittedDb = (Inl MarksOutOfRange, submittedDb)"
  "map ans_marksObtained (submissionAnswers (snd (GradeAnswer 2 (Val (5 / 2)) submittedDb))) = [5, 2]"
  "map sub_obtainedMarks (assessmentSubmissions (snd (GradeAnswer 2 (Val (5 / 2)) submittedDb))) = [7]"
  "map sub_percentage (assessmentSubmissions (snd (GradeAnswer 2 (Val (5 / 2)) submittedDb))) = [Pct 7500]"
  by (simp_all add: submittedDb_eq answeredDb_eq startedDb_eq example_defs grade_defs Let_def
        fl_examples grade_examples)

text \<open>
  C6. A grading request whose body has no \<^verbatim>\<open>marksObtained\<close> is not within
  \<open>0 \<le> marksObtained \<le> question.marks\<close>, yet it passes the range test, both comparisons
  with the missing value being false. On the submitted quiz of the example run, for the
  answer to the choice question (5 marks, correct): the call does not fail with
  \<open>MarksOutOfRange\<close> but with the internal error, and it has by then rewritten the
  answer, whose \<^verbatim>\<open>isCorrect\<close> is now false; the marks of the answers and the row of the
  submission are as before.
\<close>

theorem GradeAnswer_missing_marks:
  "map ans_id (submissionAnswers submittedDb) = [1, 2]
   \<and> map ans_isCorrect (submissionAnswers submittedDb) = [True, False]
   \<and> map ans_marksObtained (submissionAnswers submittedDb) = [5, 0]
   \<and> fst (GradeAnswer 1 Undefined submittedDb) = Inl InternalError
   \<and> map ans_isCorrect (submissionAnswers (snd (GradeAnswer 1 Undefined submittedDb)))
       = [False, False]
   \<and> map ans_marksObtained (submissionAnswers (snd (GradeAnswer 1 Undefined submittedDb)))
       = [5, 0]
   \<and> assessmentSubmissions (snd (GradeAnswer 1 Undefined submittedDb))
       = assessmentSubmissions submittedDb"
  by (simp add: submittedDb_eq answeredDb_eq startedDb_eq example_defs grade_defs)


subsection \<open>The review gate\<close>

lemma ApproveReview_completed:
  assumes found: "find (\<lambda>t. sub_id t = sid) (assessmentSubmissions d) = Some s"
    and completed: "sub_status s = COMPLETED"
    and fk: "\<forall>a\<in>set (answersOf d sid). questionOf d a \<noteq> None"
  shows "ApproveReview now teacherId sid d =
     (if filter (isUngraded d) (answersOf d sid) \<noteq> []
      then (Inl (GradingIncomplete (length (filter (isUngraded d) (answersOf d sid)))), d)
      else (Inr \<lparr> ar_submissionId = sid, ar_approvedAt = now,
                  ar_obtainedMarks = sub_obtainedMarks s, ar_totalMarks = sub_totalMarks s,
                  ar_percentage = sub_percentage s, ar_isPassed = sub_isPassed s \<rparr>,
            updateSubmission d sid
              (\<lambda>s. s\<lparr> sub_isCheckedByTeacher := True, sub_checkedBy := Some teacherId,
                      sub_checkedAt := Some now \<rparr>)))"
proof -
  from fk have "find (\<lambda>a. questionOf d a = None) (answersOf d sid) = None"
    by (simp add: find_None_iff)
  then show ?thesis
    using found completed by (simp add: ApproveReview_def Let_def)
qed

text \<open>
  C7. For a completed submission (ids being a primary key, and every answer having its
  question), \<open>ApproveReview\<close> fails with \<open>GradingIncomplete\<close> exactly when some answer
  to a short or long answer question has a text and 0 marks; it has no other failure,
  and a failure leaves the store unchanged. When it succeeds, the submission has
  \<open>isCheckedByTeacher = true\<close>, \<open>checkedBy\<close> the reviewer and \<open>checkedAt = now\<close>, its other
  fields as before, and after any sequence of core operations it is still completed and
  checked by the teacher.
\<close>

theorem ApproveReview_gate:
  assumes ok: "submissionIdsOk d"
    and found: "find (\<lambda>t. sub_id t = sid) (assessmentSubmissions d) = Some s"
    and completed: "sub_status s = COMPLETED"
    and fk: "\<forall>a\<in>set (answersOf d sid). questionOf d a \<noteq> None"
  shows "((\<exists>n. fst (ApproveReview now teacherId sid d) = Inl (GradingIncomplete n))
            \<longleftrightarrow> (\<exists>a\<in>set (answersOf d sid). \<exists>q. questionOf d a = Some q
                   \<and> (qn_questionType q = SHORT_ANSWER \<or> qn_questionType q = LONG_ANSWER)
                   \<and> ans_textAnswer a \<noteq> None \<and> ans_marksObtained a = 0))
       \<and> (\<not> isl (fst (ApproveReview now teacherId sid d)) \<longrightarrow>
             find (\<lambda>t. sub_id t = sid) (assessmentSubmissions (snd (ApproveReview now teacherId sid d)))
               = Some (s\<lparr> sub_isCheckedByTeacher := True, sub_checkedBy := Some teacherId,
                          sub_checkedAt := Some now \<rparr>)
           \<and> (\<forall>ops. isApproved (run ops (snd (ApproveReview now teacherId sid d))) sid))
       \<and> (isl (fst (ApproveReview now teacherId sid d)) \<longrightarrow>
             (\<exists>n. fst (ApproveReview now teacherId sid d) = Inl (GradingIncomplete n))
           \<and> snd (ApproveReview now teacherId sid d) = d)"
proof -
  let ?f = "\<lambda>s. s\<lparr> sub_isCheckedByTeacher := True, sub_checkedBy := Some teacherId,
                   sub_checkedAt := Some now \<rparr>"
  note eq = ApproveReview_completed [OF found completed fk, of now teacherId]
  have ung: "filter (isUngraded d) (answersOf d sid) \<noteq> []
       \<longleftrightarrow> (\<exists>a\<in>set (answersOf d sid). \<exists>q. questionOf d a = Some q
                   \<and> (qn_questionType q = SHORT_ANSWER \<or> qn_questionType q = LONG_ANSWER)
                   \<and> ans_textAnswer a \<noteq> None \<and> ans_marksObtained a = 0)"
  proof -
    have "isUngraded d a \<longleftrightarrow> (\<exists>q. questionOf d a = Some q
                   \<and> (qn_questionType q = SHORT_ANSWER \<or> qn_questionType q = LONG_ANSWER)
                   \<and> ans_textAnswer a \<noteq> None \<and> ans_marksObtained a = 0)" for a
      by (cases "questionOf d a") (simp_all add: isUngraded_def)
    then show ?thesis
      by (simp add: filter_empty_conv)
  qed
  have first: "(\<exists>n. fst (ApproveReview now teacherId sid d) = Inl (GradingIncomplete n))
            \<longleftrightarrow> filter (isUngraded d) (answersOf d sid) \<noteq> []"
    by (simp add: eq)
  have third: "isl (fst (ApproveReview now teacherId sid d)) \<longrightarrow>
             (\<exists>n. fst (ApproveReview now teacherId sid d) = Inl (GradingIncomplete n))
           \<and> snd (ApproveReview now teacherId sid d) = d"
    by (simp add: eq)
  have second: "find (\<lambda>t. sub_id t = sid) (assessmentSubmissions (snd (ApproveReview now teacherId sid d)))
               = Some (?f s)
           \<and> (\<forall>ops. isApproved (run ops (snd (ApproveReview now teacherId sid d))) sid)"
    if "\<not> isl (fst (ApproveReview now teacherId sid d))"
  proof -
    from that have d': "snd (ApproveReview now teacherId sid d) = updateSubmission d sid ?f"
      by (simp add: eq split: if_splits)
    from rows_updated [OF ok found, of "updateSubmission d sid ?f" sid ?f]
    have r: "submissionIdsOk (updateSubmission d sid ?f)"
      "find (\<lambda>t. sub_id t = sid) (assessmentSubmissions (updateSubmission d sid ?f)) = Some (?f s)"
      by (simp_all add: updateSubmission_def)
    then have "isApproved (updateSubmission d sid ?f) sid"
      using completed by (simp add: isApproved_def)
    with r show ?thesis
      unfolding d' using run_approved by blast
  qed
  from first ung second third show ?thesis
    by blast
qed


text \<open>
  The theorem at the example run: the graded submission is approved and stays approved
  under a submit, a regrade and a new start; the submission whose essay has 0 marks is
  refused.
\<close>

theorem ApproveReview_gate_witness:
  "submissionIdsOk gradedDb
   \<and> find (\<lambda>t. sub_id t = 1) (assessmentSubmissions gradedDb) = Some (hd (assessmentSubmissions gradedDb))
   \<and> sub_status (hd (assessmentSubmissions gradedDb)) = COMPLETED
   \<and> map (questionOf gradedDb) (answersOf gradedDb 1) = [Some choiceQuestion, Some essayQuestion]
   \<and> \<not> isl (fst (ApproveReview 6000 9 1 gradedDb))
   \<and> map sub_checkedBy (assessmentSubmissions (snd (ApproveReview 6000 9 1 gradedDb))) = [Some 9]
   \<and> isApproved (run [OpSubmit 7000 1 7 1, OpGradeAnswer 2 (Val 0), OpStartAttempt id 8000 1 7]
                      (snd (ApproveReview 6000 9 1 gradedDb))) 1
   \<and> submissionIdsOk submittedDb
   \<and> find (\<lambda>t. sub_id t = 1) (assessmentSubmissions submittedDb)
        = Some (hd (assessmentSubmissions submittedDb))
   \<and> sub_status (hd (assessmentSubmissions submittedDb)) = COMPLETED
   \<and> map (questionOf submittedDb) (answersOf submittedDb 1) = [Some choiceQuestion, Some essayQuestion]
   \<and> (\<exists>n. fst (ApproveReview 6000 9 1 submittedDb) = Inl (GradingIncomplete n))"
proof -
  let ?s = "hd (assessmentSubmissions gradedDb)"
  have h1: "submissionIdsOk gradedDb"
    by (simp add: submissionIdsOk_def gradedDb_eq submittedDb_eq answeredDb_eq startedDb_eq example_defs)
  have h2: "find (\<lambda>t. sub_id t = 1) (assessmentSubmissions gradedDb) = Some ?s"
    by (simp add: gradedDb_eq)
  have h3: "sub_status ?s = COMPLETED"
    by (simp add: gradedDb_eq)
  have h4: "\<forall>a\<in>set (answersOf gradedDb 1). questionOf gradedDb a \<noteq> None"
    by (simp add: gradedDb_eq submittedDb_eq answeredDb_eq startedDb_eq example_defs answersOf_def
          questionOf_def)
  have q4: "map (questionOf gradedDb) (answersOf gradedDb 1) = [Some choiceQuestion, Some essayQuestion]"
    by (simp add: gradedDb_eq submittedDb_eq answeredDb_eq startedDb_eq example_defs answersOf_def
          questionOf_def)
  have p4: "map (questionOf submittedDb) (answersOf submittedDb 1) = [Some choiceQuestion, Some essayQuestion]"
    by (simp add: submittedDb_eq answeredDb_eq startedDb_eq example_defs answersOf_def questionOf_def)
  have ok: "\<not> isl (fst (ApproveReview 6000 9 1 gradedDb))"
    by (simp add: gradedDb_eq submittedDb_eq answeredDb_eq startedDb_eq example_defs approve_defs Let_def)
  let ?t = "hd (assessmentSubmissions submittedDb)"
  have g1: "submissionIdsOk submittedDb"
    by (simp add: submissionIdsOk_def submittedDb_eq answeredDb_eq startedDb_eq example_defs)
  have g2: "find (\<lambda>t. sub_id t = 1) (assessmentSubmissions submittedDb) = Some ?t"
    by (simp add: submittedDb_eq)
  have g3: "sub_status ?t = COMPLETED"
    by (simp add: submittedDb_eq)
  have g4: "\<forall>a\<in>set (answersOf submittedDb 1). questionOf submittedDb a \<noteq> None"
    by (simp add: submittedDb_eq answeredDb_eq startedDb_eq example_defs answersOf_def questionOf_def)
  have essay: "\<exists>a\<in>set (answersOf submittedDb 1). \<exists>q. questionOf submittedDb a = Some q
                   \<and> (qn_questionType q = SHORT_ANSWER \<or> qn_questionType q = LONG_ANSWER)
                   \<and> ans_textAnswer a \<noteq> None \<and> ans_marksObtained a = 0"
    by (simp add: submittedDb_eq answeredDb_eq startedDb_eq example_defs answersOf_def questionOf_def)
  note A = ApproveReview_gate [OF h1 h2 h3 h4, of 6000 9]
  note B = ApproveReview_gate [OF g1 g2 g3 g4, of 6000 9]
  from A ok have row: "find (\<lambda>t. sub_id t = 1) (assessmentSubmissions (snd (ApproveReview 6000 9 1 gradedDb)))
               = Some (?s\<lparr> sub_isCheckedByTeacher := True, sub_checkedBy := Some 9,
                          sub_checkedAt := Some 6000 \<rparr>)"
    and later: "isApproved (run [OpSubmit 7000 1 7 1, OpGradeAnswer 2 (Val 0), OpStartAttempt id 8000 1 7]
                      (snd (ApproveReview 6000 9 1 gradedDb))) 1"
    by blast+
  have by9: "map sub_checkedBy (assessmentSubmissions (snd (ApproveReview 6000 9 1 gradedDb))) = [Some 9]"
    using approvedDb_eq by (simp add: approvedDb_def gradedDb_eq)
  from B essay have inc: "\<exists>n. fst (ApproveReview 6000 9 1 submittedDb) = Inl (GradingIncomplete n)"
    by blast
  from h1 h2 h3 q4 ok by9 later g1 g2 g3 p4 inc show ?thesis
    by (intro conjI)
qed

subsection \<open>Results before approval\<close>

lemma blankScores_fields [simp]:
  "sub_id (blankScores s) = sub_id s"
  "sub_userId (blankScores s) = sub_userId s"
  "sub_assessmentId (blankScores s) = sub_assessmentId s"
  "sub_status (blankScores s) = sub_status s"
  "sub_endTime (blankScores s) = sub_endTime s"
  "sub_attemptNumber (blankScores s) = sub_attemptNumber s"
  "sub_isCheckedByTeacher (blankScores s) = sub_isCheckedByTeacher s"
  by (simp_all add: blankScores_def)

lemma blankScores_checked: "sub_isCheckedByTeacher s \<Longrightarrow> blankScores s = s"
  by (simp add: blankScores_def)

lemma insertByEndTime_map:
  "insertByEndTime (blankScores s) (map blankScores ts) = map blankScores (insertByEndTime s ts)"
  by (induction ts) simp_all

lemma orderByEndTimeDesc_map:
  "orderByEndTimeDesc (map blankScores ss) = map blankScores (orderByEndTimeDesc ss)"
  by (induction ss) (simp_all add: orderByEndTimeDesc_def insertByEndTime_map)

lemma filter_map_blank:
  "(\<And>s. P (blankScores s) = P s) \<Longrightarrow> filter P (map blankScores ss) = map blankScores (filter P ss)"
  by (induction ss) simp_all

lemma completedOf_withheld:
  "completedOf (withheld d) userId = map blankScores (completedOf d userId)"
  by (simp add: completedOf_def withheld_def filter_map_blank orderByEndTimeDesc_map)

lemma set_insertByEndTime: "set (insertByEndTime s ts) = insert s (set ts)"
  by (induction ts) auto

lemma set_orderByEndTimeDesc: "set (orderByEndTimeDesc ss) = set ss"
  by (induction ss) (simp_all add: orderByEndTimeDesc_def set_insertByEndTime)

lemma joins_withheld [simp]:
  "assessmentOf (withheld d) = assessmentOf d"
  "courseOf (withheld d) = courseOf d"
  "questionOf (withheld d) = questionOf d"
  "optionsOf (withheld d) = optionsOf d"
  "questionOptions (withheld d) = questionOptions d"
  by (simp_all add: fun_eq_iff assessmentOf_def courseOf_def questionOf_def optionsOf_def withheld_def)

lemma resultEntry_withheld:
  "resultEntry (withheld d) (blankScores s) = resultEntry d s"
proof (cases "sub_isCheckedByTeacher s")
  case True
  show ?thesis
    unfolding blankScores_checked [OF True] resultEntry_def joins_withheld ..
next
  case False
  have "assessmentOf d (blankScores s) = assessmentOf d s"
    by (simp add: assessmentOf_def)
  with False show ?thesis
    unfolding resultEntry_def joins_withheld by (simp split: option.splits)
qed

lemma myResults_withheld: "myResults userId (withheld d) = myResults userId d"
  by (simp add: myResults_def completedOf_withheld resultEntry_withheld comp_def)

lemma resultEntry_pending:
  "\<not> sub_isCheckedByTeacher s \<Longrightarrow> resultEntry d s = Some e
   \<Longrightarrow> pendingEntry e \<and> re_submissionId e = sub_id s"
  by (auto simp: resultEntry_def pendingEntry_def split: option.splits)

lemma resultEntry_id:
  "resultEntry d s = Some e \<Longrightarrow> re_submissionId e = sub_id s"
  by (auto simp: resultEntry_def split: option.splits if_splits)

lemma those_Some_all2:
  "those (map f xs) = Some ys \<Longrightarrow> list_all2 (\<lambda>x y. f x = Some y) xs ys"
  by (induction xs arbitrary: ys) (auto split: option.splits)

lemma myResults_entries:
  assumes "myResults userId d = Inr results"
  shows "list_all2 (\<lambda>s e. re_submissionId e = sub_id s \<and> (\<not> sub_isCheckedByTeacher s \<longrightarrow> pendingEntry e))
           (completedOf d userId) results"
proof -
  from assms have "those (map (resultEntry d) (completedOf d userId)) = Some results"
    by (simp add: myResults_def split: option.splits)
  then have "list_all2 (\<lambda>s e. resultEntry d s = Some e) (completedOf d userId) results"
    by (rule those_Some_all2)
  then show ?thesis
    by (rule list_all2_mono) (auto dest: resultEntry_pending resultEntry_id)
qed


lemma find_map_blank:
  "(\<And>s. P (blankScores s) = P s)
   \<Longrightarrow> find P (map blankScores ss) = map_option blankScores (find P ss)"
  by (induction ss) simp_all

lemma answersOf_withheld_checked:
  assumes "s \<in> set (assessmentSubmissions d)" "sub_id s = sid" "sub_isCheckedByTeacher s"
  shows "answersOf (withheld d) sid = answersOf d sid"
proof -
  from assms have ex: "find (\<lambda>t. sub_id t = sid \<and> sub_isCheckedByTeacher t) (assessmentSubmissions d) \<noteq> None"
    by (auto simp: find_None_iff)
  have "filter (\<lambda>a. ans_submissionId a = sid) (map (blankAnswer d) as)
          = filter (\<lambda>a. ans_submissionId a = sid) as" for as
    by (induction as) (simp_all add: blankAnswer_def ex)
  then show ?thesis
    by (simp add: answersOf_def withheld_def)
qed

lemma detailedAnswer_withheld [simp]: "detailedAnswer (withheld d) = detailedAnswer d"
  unfolding detailedAnswer_def fun_eq_iff joins_withheld by simp

lemma studentReview_withheld:
  "studentReview userId sid (withheld d) = studentReview userId sid d"
proof (cases "find (\<lambda>s. sub_id s = sid \<and> sub_userId s = userId \<and> sub_status s = COMPLETED)
                   (assessmentSubmissions d)")
  case None
  then have "find (\<lambda>s. sub_id s = sid \<and> sub_userId s = userId \<and> sub_status s = COMPLETED)
                  (assessmentSubmissions (withheld d)) = None"
    by (simp add: withheld_def find_map_blank)
  with None show ?thesis
    by (simp add: studentReview_def)
next
  case (Some s)
  then have w: "find (\<lambda>s. sub_id s = sid \<and> sub_userId s = userId \<and> sub_status s = COMPLETED)
                  (assessmentSubmissions (withheld d)) = Some (blankScores s)"
    by (simp add: withheld_def find_map_blank)
  show ?thesis
  proof (cases "sub_isCheckedByTeacher s")
    case False
    with Some w show ?thesis
      by (simp add: studentReview_def)
  next
    case True
    from Some have mem: "s \<in> set (assessmentSubmissions d)" "sub_id s = sid"
      by (auto simp: find_Some_iff)
    have aq: "answersWithQuestions (withheld d) sid = answersWithQuestions d sid"
      by (simp add: answersWithQuestions_def answersOf_withheld_checked [OF mem True])
    show ?thesis
      unfolding studentReview_def Some w blankScores_checked [OF True] aq joins_withheld
        detailedAnswer_withheld ..
  qed
qed

lemma studentReview_pending:
  assumes "find (\<lambda>s. sub_id s = sid \<and> sub_userId s = userId \<and> sub_status s = COMPLETED)
                (assessmentSubmissions d) = Some s"
    and "\<not> sub_isCheckedByTeacher s"
  shows "studentReview userId sid d = Inl PendingReview"
  using assms by (simp add: studentReview_def)

text \<open>
  The two queries that test \<^verbatim>\<open>isCheckedByTeacher\<close>, the results listing and the detailed
  review. The results listing has one entry for each completed submission of the user, and
  the entry of a submission that is not checked by the teacher has the status
  \<open>PENDING_REVIEW\<close> with \<open>null\<close> for the obtained marks, the total, the percentage and the
  pass flag, and may not be reviewed. The detailed review of such a submission is refused
  with \<open>PendingReview\<close>, so no answer is shown. The output of both queries is the same
  for any two stores that agree once the scores of unapproved submissions and the marks of
  their answers are blanked: it does not depend on them.
\<close>

lemma gated_queries_withheld:
  "set (completedOf d userId)
      = {s \<in> set (assessmentSubmissions d). sub_userId s = userId \<and> sub_status s = COMPLETED}
   \<and> (\<forall>results. myResults userId d = Inr results \<longrightarrow>
         list_all2 (\<lambda>s e. re_submissionId e = sub_id s
                          \<and> (\<not> sub_isCheckedByTeacher s \<longrightarrow> pendingEntry e))
                   (completedOf d userId) results)
   \<and> (\<forall>s. find (\<lambda>s. sub_id s = sid \<and> sub_userId s = userId \<and> sub_status s = COMPLETED)
              (assessmentSubmissions d) = Some s
           \<and> \<not> sub_isCheckedByTeacher s
         \<longrightarrow> studentReview userId sid d = Inl PendingReview)
   \<and> (\<forall>d'. withheld d' = withheld d \<longrightarrow>
         myResults userId d' = myResults userId d
         \<and> studentReview userId sid d' = studentReview userId sid d)"
proof (intro conjI allI impI)
  show "set (completedOf d userId)
      = {s \<in> set (assessmentSubmissions d). sub_userId s = userId \<and> sub_status s = COMPLETED}"
    by (auto simp: completedOf_def set_orderByEndTimeDesc)
next
  fix results assume "myResults userId d = Inr results"
  then show "list_all2 (\<lambda>s e. re_submissionId e = sub_id s
                          \<and> (\<not> sub_isCheckedByTeacher s \<longrightarrow> pendingEntry e))
                   (completedOf d userId) results"
    by (rule myResults_entries)
next
  fix s assume "find (\<lambda>s. sub_id s = sid \<and> sub_userId s = userId \<and> sub_status s = COMPLETED)
              (assessmentSubmissions d) = Some s \<and> \<not> sub_isCheckedByTeacher s"
  then show "studentReview userId sid d = Inl PendingReview"
    by (simp add: studentReview_pending)
next
  fix d' assume eq: "withheld d' = withheld d"
  show "myResults userId d' = myResults userId d"
    using myResults_withheld [of userId d'] myResults_withheld [of userId d] eq by simp
  show "studentReview userId sid d' = studentReview userId sid d"
    using studentReview_withheld [of userId sid d'] studentReview_withheld [of userId sid d] eq by simp
qed

lemmas results_defs = myResults_def completedOf_def orderByEndTimeDesc_def resultEntry_def
  assessmentOf_def courseOf_def studentReview_def

lemmas listing_defs = myAssessments_def assessmentEntry_def submissionsOf_def latestScore_def
  statusOrder_def

text \<open>
  At the example run: before approval the student sees the same pending entry and the
  same refusal whether the essay is graded (8 marks) or not (5 marks).
\<close>

lemma gated_queries_example:
  "withheld gradedDb = withheld submittedDb
   \<and> myResults 7 gradedDb = myResults 7 submittedDb
   \<and> studentReview 7 1 gradedDb = studentReview 7 1 submittedDb
   \<and> studentReview 7 1 submittedDb = Inl PendingReview
   \<and> map re_status (projr (myResults 7 submittedDb)) = [''PENDING_REVIEW'']
   \<and> map re_obtainedMarks (projr (myResults 7 submittedDb)) = [None]
   \<and> map re_percentage (projr (myResults 7 submittedDb)) = [None]
   \<and> map re_isPassed (projr (myResults 7 submittedDb)) = [None]
   \<and> map sub_obtainedMarks (assessmentSubmissions gradedDb) = [8]
   \<and> map sub_obtainedMarks (assessmentSubmissions submittedDb) = [5]"
proof -
  have w: "withheld gradedDb = withheld submittedDb"
    by (simp add: withheld_def blankScores_def blankAnswer_def gradedDb_eq submittedDb_eq
          answeredDb_eq startedDb_eq)
  have f: "find (\<lambda>s. sub_id s = 1 \<and> sub_userId s = 7 \<and> sub_status s = COMPLETED)
              (assessmentSubmissions submittedDb) = Some (hd (assessmentSubmissions submittedDb))
           \<and> \<not> sub_isCheckedByTeacher (hd (assessmentSubmissions submittedDb))"
    by (simp add: submittedDb_eq)
  have r: "myResults 7 submittedDb = Inr (projr (myResults 7 submittedDb))"
    by (simp add: results_defs submittedDb_eq answeredDb_eq startedDb_eq example_defs)
  have c: "completedOf submittedDb 7 = assessmentSubmissions submittedDb"
    by (simp add: completedOf_def orderByEndTimeDesc_def submittedDb_eq)
  have v: "map sub_obtainedMarks (assessmentSubmissions gradedDb) = [8]"
    "map sub_obtainedMarks (assessmentSubmissions submittedDb) = [5]"
    by (simp_all add: gradedDb_eq submittedDb_eq)
  note T = gated_queries_withheld [of submittedDb 7 1]
  from T w have same: "myResults 7 gradedDb = myResults 7 submittedDb"
    "studentReview 7 1 gradedDb = studentReview 7 1 submittedDb"
    by blast+
  from T f have pend: "studentReview 7 1 submittedDb = Inl PendingReview"
    by blast
  from T r have "list_all2 (\<lambda>s e. re_submissionId e = sub_id s
                          \<and> (\<not> sub_isCheckedByTeacher s \<longrightarrow> pendingEntry e))
                   (completedOf submittedDb 7) (projr (myResults 7 submittedDb))"
    by blast
  then obtain e where e: "projr (myResults 7 submittedDb) = [e]" "pendingEntry e"
    unfolding c by (auto simp: submittedDb_eq list_all2_Cons1)
  then have fields: "map re_status (projr (myResults 7 submittedDb)) = [''PENDING_REVIEW'']"
    "map re_obtainedMarks (projr (myResults 7 submittedDb)) = [None]"
    "map re_percentage (projr (myResults 7 submittedDb)) = [None]"
    "map re_isPassed (projr (myResults 7 submittedDb)) = [None]"
    by (simp_all add: pendingEntry_def)
  from w same pend fields v show ?thesis
    by (intro conjI)
qed

text \<open>
  C8. The listing of the student's assessments is a third student-facing query that
  reports a result, and it has no test of \<^verbatim>\<open>isCheckedByTeacher\<close>. On the example run,
  for the quiz that user 7 has submitted and teacher 9 has not approved: the listing
  reports the status \<open>PASSED\<close> and a latest score with the obtained marks, the percentage
  and the pass flag as stored, next to \<^verbatim>\<open>isCheckedByTeacher = false\<close>; once the essay is
  graded, still before approval, it reports 8 marks and 80.00 where it reported 5 and
  50.00, though the two stores agree in all but withheld data. The results listing
  reports \<open>PENDING_REVIEW\<close> for the same submission.
\<close>

theorem myAssessments_unapproved_result:
  "map sub_status (assessmentSubmissions submittedDb) = [COMPLETED]
   \<and> map sub_isCheckedByTeacher (assessmentSubmissions submittedDb) = [False]
   \<and> map sub_isCheckedByTeacher (assessmentSubmissions gradedDb) = [False]
   \<and> withheld gradedDb = withheld submittedDb
   \<and> map re_status (projr (myResults 7 submittedDb)) = [''PENDING_REVIEW'']
   \<and> \<not> isl (myAssessments 5200 7 submittedDb)
   \<and> map ae_assessmentId (projr (myAssessments 5200 7 submittedDb)) = [2, 1]
   \<and> map ae_status (projr (myAssessments 5200 7 submittedDb)) = [''NOT_STARTED'', ''PASSED'']
   \<and> map ae_latestScore (projr (myAssessments 5200 7 submittedDb))
       = [None, Some \<lparr> ls_percentage = Pct 5000, ls_obtainedMarks = 5, ls_isPassed = True,
                       ls_submittedAt = Some 5100, ls_isCheckedByTeacher = False \<rparr>]
   \<and> map ae_status (projr (myAssessments 5200 7 gradedDb)) = [''NOT_STARTED'', ''PASSED'']
   \<and> map ae_latestScore (projr (myAssessments 5200 7 gradedDb))
       = [None, Some \<lparr> ls_percentage = Pct 8000, ls_obtainedMarks = 8, ls_isPassed = True,
                       ls_submittedAt = Some 5100, ls_isCheckedByTeacher = False \<rparr>]"
proof -
  have stored: "map sub_status (assessmentSubmissions submittedDb) = [COMPLETED]"
    "map sub_isCheckedByTeacher (assessmentSubmissions submittedDb) = [False]"
    "map sub_isCheckedByTeacher (assessmentSubmissions gradedDb) = [False]"
    by (simp_all add: gradedDb_eq submittedDb_eq)
  have same: "withheld gradedDb = withheld submittedDb"
    by (simp add: withheld_def blankScores_def blankAnswer_def gradedDb_eq submittedDb_eq
          answeredDb_eq startedDb_eq)
  have results: "map re_status (projr (myResults 7 submittedDb)) = [''PENDING_REVIEW'']"
    by (simp add: results_defs submittedDb_eq answeredDb_eq startedDb_eq example_defs)
  have before: "\<not> isl (myAssessments 5200 7 submittedDb)"
    "map ae_assessmentId (projr (myAssessments 5200 7 submittedDb)) = [2, 1]"
    "map ae_status (projr (myAssessments 5200 7 submittedDb)) = [''NOT_STARTED'', ''PASSED'']"
    "map ae_latestScore (projr (myAssessments 5200 7 submittedDb))
       = [None, Some \<lparr> ls_percentage = Pct 5000, ls_obtainedMarks = 5, ls_isPassed = True,
                       ls_submittedAt = Some 5100, ls_isCheckedByTeacher = False \<rparr>]"
    by (simp_all add: listing_defs Let_def submittedDb_eq answeredDb_eq startedDb_eq example_defs)
  have after: "map ae_status (projr (myAssessments 5200 7 gradedDb)) = [''NOT_STARTED'', ''PASSED'']"
    "map ae_latestScore (projr (myAssessments 5200 7 gradedDb))
       = [None, Some \<lparr> ls_percentage = Pct 8000, ls_obtainedMarks = 8, ls_isPassed = True,
                       ls_submittedAt = Some 5100, ls_isCheckedByTeacher = False \<rparr>]"
    by (simp_all add: listing_defs Let_def gradedDb_eq submittedDb_eq answeredDb_eq startedDb_eq
          example_defs)
  from stored same results before after show ?thesis
    by (intro conjI)
qed


subsection \<open>Answers to questions of another assessment\<close>

lemma find_strengthen:
  "find P xs = Some x \<Longrightarrow> R x \<Longrightarrow> (\<And>y. R y \<Longrightarrow> P y) \<Longrightarrow> find R xs = Some x"
  by (induction xs) (auto split: if_splits)

lemma assessmentSubmissions_upsertAnswer [simp]:
  "assessmentSubmissions (upsertAnswer d body c m) = assessmentSubmissions d"
  by (simp add: upsertAnswer_def)

lemma assessments_upsertAnswer [simp]:
  "assessments (upsertAnswer d body c m) = assessments d"
  by (simp add: upsertAnswer_def)

text \<open>
  C9 (amended). \<open>SaveAnswer\<close> looks the question up by its id alone. For a submission in
  progress of the caller and any stored question, of whatever assessment, the call
  succeeds and stores an answer of that question under the submission with the
  auto-graded marks, provided that the request's \<^verbatim>\<open>selectedOptionId\<close> is absent,
  \<^verbatim>\<open>null\<close> or the id of a stored option (the store refuses any other). A following
  \<open>Submit\<close> of the submission, its assessment having a positive total and the sum of the
  marks of its answers being within the range of the INTEGER column, succeeds, and the
  obtained marks it returns and stores are the marks of that answer plus those of the
  submission's other answers.
\<close>

theorem SaveAnswer_foreign_question:
  assumes sub: "find (\<lambda>s. sub_id s = sa_submissionId body \<and> sub_userId s = userId
                          \<and> sub_status s = IN_PROGRESS) (assessmentSubmissions d) = Some s"
    and q: "find (\<lambda>q. qn_id q = sa_questionId body) (questions d) = Some q"
    and fk: "optionFkOk d (sa_selectedOptionId body)"
    and sid: "sa_submissionId body \<noteq> 0"
    and asm: "find (\<lambda>a. asm_id a = sub_assessmentId s) (assessments d) = Some a"
    and total: "0 < asm_totalMarks a"
    and range:
      "- 2147483648 \<le> sum_list (map ans_marksObtained
                               (answersOf (snd (SaveAnswer userId body d)) (sa_submissionId body)))"
      "sum_list (map ans_marksObtained
                   (answersOf (snd (SaveAnswer userId body d)) (sa_submissionId body)))
         \<le> 2147483647"
  shows "\<exists>d1 r d2 ans.
           SaveAnswer userId body d = (Inr (), d1)
         \<and> ans \<in> set (answersOf d1 (sa_submissionId body))
         \<and> ans_questionId ans = sa_questionId body
         \<and> ans_marksObtained ans = snd (autoGrade d q (sa_selectedOptionId body))
         \<and> Submit now (sub_assessmentId s) userId (sa_submissionId body) d1 = (Inr r, d2)
         \<and> sm_obtainedMarks r =
             ans_marksObtained ans
             + sum_list (map ans_marksObtained (remove1 ans (answersOf d1 (sa_submissionId body))))
         \<and> (\<forall>t\<in>set (assessmentSubmissions d2). sub_id t = sa_submissionId body
              \<longrightarrow> sub_obtainedMarks t = sm_obtainedMarks r)"
proof -
  let ?c = "fst (autoGrade d q (sa_selectedOptionId body))"
  let ?m = "snd (autoGrade d q (sa_selectedOptionId body))"
  let ?d1 = "upsertAnswer d body ?c ?m"
  let ?sid = "sa_submissionId body"
  have save: "SaveAnswer userId body d = (Inr (), ?d1)"
    using fk by (simp add: SaveAnswer_found [OF sub q])
  from upsertAnswer_stored [of d body ?c ?m]
  obtain ans where ans: "ans \<in> set (submissionAnswers ?d1)" "answerKey ?sid (sa_questionId body) ans"
    and marks: "ans_marksObtained ans = ?m"
    by blast
  from ans have mem: "ans \<in> set (answersOf ?d1 ?sid)" and qid: "ans_questionId ans = sa_questionId body"
    by (simp_all add: answersOf_def answerKey_def)
  have ps: "sub_id s = ?sid \<and> sub_userId s = userId \<and> sub_status s = IN_PROGRESS"
    using sub by (auto simp: find_Some_iff)
  have found: "find (\<lambda>t. sub_id t = ?sid \<and> sub_userId t = userId
                         \<and> sub_assessmentId t = sub_assessmentId s \<and> sub_status t = IN_PROGRESS)
                    (assessmentSubmissions ?d1) = Some s"
    unfolding assessmentSubmissions_upsertAnswer
    by (rule find_strengthen [OF sub]) (use ps in auto)
  have asm1: "find (\<lambda>a. asm_id a = sub_assessmentId s) (assessments ?d1) = Some a"
    using asm by simp
  note submit = Submit_found [OF sid found asm1 total, of now]
  have sum: "sum_list (map ans_marksObtained (answersOf ?d1 ?sid))
             = ans_marksObtained ans + sum_list (map ans_marksObtained (remove1 ans (answersOf ?d1 ?sid)))"
    using mem by (simp add: sum_list_map_remove1)
  show ?thesis
    apply (rule exI [of _ ?d1])
    apply (intro exI conjI)
          apply (rule save)
         apply (rule mem)
        apply (rule qid)
       apply (rule marks)
      apply (rule submit)
     apply (simp add: sum)
    apply (simp only: SubmitResponse.simps)
    apply (rule updated_rows)
     apply simp_all
    done
qed

text \<open>
  The theorem at the example run: the started quiz submission takes an answer to the
  23-mark question of the other assessment, and is then submitted with at least 23
  obtained marks, the quiz having 10 in total.
\<close>

theorem SaveAnswer_foreign_question_witness:
  "find (\<lambda>s. sub_id s = sa_submissionId foreignAnswer \<and> sub_userId s = 7 \<and> sub_status s = IN_PROGRESS)
        (assessmentSubmissions startedDb) = Some (hd (assessmentSubmissions startedDb))
   \<and> find (\<lambda>q. qn_id q = sa_questionId foreignAnswer) (questions startedDb) = Some examQuestion
   \<and> optionFkOk startedDb (sa_selectedOptionId foreignAnswer)
   \<and> sa_submissionId foreignAnswer \<noteq> 0
   \<and> find (\<lambda>a. asm_id a = sub_assessmentId (hd (assessmentSubmissions startedDb)))
           (assessments startedDb) = Some quiz
   \<and> 0 < asm_totalMarks quiz
   \<and> sum_list (map ans_marksObtained
                  (answersOf (snd (SaveAnswer 7 foreignAnswer startedDb)) (sa_submissionId foreignAnswer)))
       = 23
   \<and> qn_assessmentId examQuestion \<noteq> sub_assessmentId (hd (assessmentSubmissions startedDb))
   \<and> (\<exists>d1 r d2 ans.
           SaveAnswer 7 foreignAnswer startedDb = (Inr (), d1)
         \<and> ans \<in> set (answersOf d1 1)
         \<and> ans_questionId ans = 3
         \<and> ans_marksObtained ans = 23
         \<and> Submit 5100 1 7 1 d1 = (Inr r, d2)
         \<and> sm_obtainedMarks r = 23 + sum_list (map ans_marksObtained (remove1 ans (answersOf d1 1))))"
proof -
  let ?s = "hd (assessmentSubmissions startedDb)"
  have h1: "find (\<lambda>s. sub_id s = sa_submissionId foreignAnswer \<and> sub_userId s = 7
                       \<and> sub_status s = IN_PROGRESS) (assessmentSubmissions startedDb) = Some ?s"
    by (simp add: foreignAnswer_def startedDb_eq)
  have h2: "find (\<lambda>q. qn_id q = sa_questionId foreignAnswer) (questions startedDb) = Some examQuestion"
    by (simp add: foreignAnswer_def startedDb_eq example_defs)
  have h3: "optionFkOk startedDb (sa_selectedOptionId foreignAnswer)"
    by (simp add: foreignAnswer_def startedDb_eq example_defs)
  have h4: "sa_submissionId foreignAnswer \<noteq> 0"
    by (simp add: foreignAnswer_def)
  have h5: "find (\<lambda>a. asm_id a = sub_assessmentId ?s) (assessments startedDb) = Some quiz"
    by (simp add: startedDb_eq example_defs)
  have h6: "0 < asm_totalMarks quiz"
    by (simp add: quiz_def)
  have h7: "sum_list (map ans_marksObtained
                  (answersOf (snd (SaveAnswer 7 foreignAnswer startedDb)) (sa_submissionId foreignAnswer)))
       = 23"
    by (simp add: foreignAnswer_def startedDb_eq example_defs save_defs answersOf_def)
  have other: "qn_assessmentId examQuestion \<noteq> sub_assessmentId ?s"
    by (simp add: startedDb_eq example_defs)
  have marks: "snd (autoGrade startedDb examQuestion (sa_selectedOptionId foreignAnswer)) = 23"
    by (simp add: foreignAnswer_def startedDb_eq example_defs autoGrade_def optionsOf_def)
  have ids: "sa_submissionId foreignAnswer = 1" "sa_questionId foreignAnswer = 3"
    "sub_assessmentId ?s = 1"
    by (simp_all add: foreignAnswer_def startedDb_eq)
  from h7 have h8:
    "- 2147483648 \<le> sum_list (map ans_marksObtained
                  (answersOf (snd (SaveAnswer 7 foreignAnswer startedDb)) (sa_submissionId foreignAnswer)))"
    "sum_list (map ans_marksObtained
                  (answersOf (snd (SaveAnswer 7 foreignAnswer startedDb)) (sa_submissionId foreignAnswer)))
       \<le> 2147483647"
    by simp_all
  from SaveAnswer_foreign_question [OF h1 h2 h3 h4 h5 h6 h8, of 5100]
  have "\<exists>d1 r d2 ans.
           SaveAnswer 7 foreignAnswer startedDb = (Inr (), d1)
         \<and> ans \<in> set (answersOf d1 1)
         \<and> ans_questionId ans = 3
         \<and> ans_marksObtained ans = 23
         \<and> Submit 5100 1 7 1 d1 = (Inr r, d2)
         \<and> sm_obtainedMarks r = 23 + sum_list (map ans_marksObtained (remove1 ans (answersOf d1 1)))"
    unfolding marks ids by metis
  with h1 h2 h3 h4 h5 h6 h7 other show ?thesis
    by (intro conjI)
qed

text \<open>
  The claim as it stands fails where the request names an option that is not stored: the
  started quiz submission is in progress and owned by user 7, question 3 exists, and
  the call with option 99 ends in the internal error, nothing stored.
\<close>

theorem SaveAnswer_foreign_question_counterexample:
  "map sub_id (assessmentSubmissions startedDb) = [1]
   \<and> map sub_userId (assessmentSubmissions startedDb) = [7]
   \<and> map sub_status (assessmentSubmissions startedDb) = [IN_PROGRESS]
   \<and> find (\<lambda>q. qn_id q = sa_questionId foreignDangling) (questions startedDb) = Some examQuestion
   \<and> sa_submissionId foreignDangling = 1
   \<and> sa_selectedOptionId foreignDangling = Val 99
   \<and> SaveAnswer 7 foreignDangling startedDb = (Inl InternalError, startedDb)"
  by (simp add: foreignDangling_def startedDb_eq example_defs save_defs)


subsection \<open>A selected option that is not the question's\<close>

lemma selectedOption_None_grade:
  "selectedOption (optionsOf d (qn_id q)) sel = None \<Longrightarrow> autoGrade d q sel = (False, 0)"
  by (simp add: autoGrade_def)

text \<open>
  C10 (amended). When the selected option of a request is missing, null, or not the id of
  one of the question's own options, the handler's grading yields \<open>isCorrect = false\<close> and
  \<open>marksObtained = 0\<close> without a validation error of its own. The call then succeeds,
  and stores exactly that, when the request names no option or names a stored option (of
  another question); when it names an id that no stored option has, the foreign key of
  \<open>selectedOptionId\<close> rejects the write, the call fails with the internal error and the
  store is unchanged.
\<close>

theorem SaveAnswer_unmatched_option:
  assumes sub: "find (\<lambda>s. sub_id s = sa_submissionId body \<and> sub_userId s = userId
                          \<and> sub_status s = IN_PROGRESS) (assessmentSubmissions d) = Some s"
    and q: "find (\<lambda>q. qn_id q = sa_questionId body) (questions d) = Some q"
    and unmatched: "selectedOption (optionsOf d (qn_id q)) (sa_selectedOptionId body) = None"
  shows "(optionFkOk d (sa_selectedOptionId body) \<longrightarrow>
            SaveAnswer userId body d = (Inr (), upsertAnswer d body False 0)
          \<and> (\<exists>a\<in>set (submissionAnswers (upsertAnswer d body False 0)).
                answerKey (sa_submissionId body) (sa_questionId body) a)
          \<and> (\<forall>a\<in>set (submissionAnswers (upsertAnswer d body False 0)).
                answerKey (sa_submissionId body) (sa_questionId body) a
                \<longrightarrow> \<not> ans_isCorrect a \<and> ans_marksObtained a = 0))
       \<and> (\<not> optionFkOk d (sa_selectedOptionId body) \<longrightarrow>
            SaveAnswer userId body d = (Inl InternalError, d))"
  using upsertAnswer_stored [of d body False 0]
  by (simp add: SaveAnswer_found [OF sub q] selectedOption_None_grade [OF unmatched])

text \<open>
  The theorem at the example run: the choice question answered with option 3, which
  belongs to the question of the other assessment.
\<close>

theorem SaveAnswer_unmatched_option_witness:
  "find (\<lambda>s. sub_id s = sa_submissionId otherQuestionsOption \<and> sub_userId s = 7
              \<and> sub_status s = IN_PROGRESS) (assessmentSubmissions startedDb)
     = Some (hd (assessmentSubmissions startedDb))
   \<and> find (\<lambda>q. qn_id q = sa_questionId otherQuestionsOption) (questions startedDb) = Some choiceQuestion
   \<and> selectedOption (optionsOf startedDb (qn_id choiceQuestion))
        (sa_selectedOptionId otherQuestionsOption) = None
   \<and> optionFkOk startedDb (sa_selectedOptionId otherQuestionsOption)
   \<and> SaveAnswer 7 otherQuestionsOption startedDb
        = (Inr (), upsertAnswer startedDb otherQuestionsOption False 0)
   \<and> map ans_marksObtained (submissionAnswers (upsertAnswer startedDb otherQuestionsOption False 0)) = [0]"
proof -
  have h1: "find (\<lambda>s. sub_id s = sa_submissionId otherQuestionsOption \<and> sub_userId s = 7
              \<and> sub_status s = IN_PROGRESS) (assessmentSubmissions startedDb)
     = Some (hd (assessmentSubmissions startedDb))"
    by (simp add: otherQuestionsOption_def startedDb_eq)
  have h2: "find (\<lambda>q. qn_id q = sa_questionId otherQuestionsOption) (questions startedDb)
              = Some choiceQuestion"
    by (simp add: otherQuestionsOption_def startedDb_eq example_defs)
  have h3: "selectedOption (optionsOf startedDb (qn_id choiceQuestion))
              (sa_selectedOptionId otherQuestionsOption) = None"
    by (simp add: otherQuestionsOption_def startedDb_eq example_defs optionsOf_def)
  have fk: "optionFkOk startedDb (sa_selectedOptionId otherQuestionsOption)"
    by (simp add: otherQuestionsOption_def startedDb_eq example_defs)
  have stored: "map ans_marksObtained
                  (submissionAnswers (upsertAnswer startedDb otherQuestionsOption False 0)) = [0]"
    by (simp add: otherQuestionsOption_def startedDb_eq example_defs upsertAnswer_def answerKey_def)
  from SaveAnswer_unmatched_option [OF h1 h2 h3] fk h1 h2 h3 stored show ?thesis
    by simp
qed

text \<open>
  A selected option can make the call fail: option id 99 is the id of no stored option,
  and the save of the choice question with it ends in the internal error.
\<close>

theorem SaveAnswer_unmatched_option_counterexample:
  "qn_questionType choiceQuestion = MULTIPLE_CHOICE
   \<and> find (\<lambda>q. qn_id q = sa_questionId danglingOption) (questions startedDb) = Some choiceQuestion
   \<and> selectedOption (optionsOf startedDb (qn_id choiceQuestion)) (sa_selectedOptionId danglingOption) = None
   \<and> SaveAnswer 7 danglingOption startedDb = (Inl InternalError, startedDb)"
  by (simp add: danglingOption_def startedDb_eq example_defs save_defs)

end
